theory Spec2Isabelle
  imports Complex_Main "HOL-Library.Word"
begin

section \<open>JavaScript numbers\<close>

text \<open>
  Every \<^verbatim>\<open>number\<close> of the source is a \<open>jsnum\<close>: a finite value, one of the two
  infinities, or NaN. The operations follow the language's rules for the special values
  (NaN is contagious, \<open>0 * Infinity\<close> and \<open>Infinity - Infinity\<close> are NaN, every comparison
  with NaN is false). Finite values are exact reals: the rounding of binary floating
  point, overflow of finite results to infinity and the sign of zero are not modelled.
  The one exception is the product that the exporter floors into a colour byte, where the
  rounding decides the digit that is written: see \<open>times64\<close>.
\<close>

datatype jsnum = Fin real | PInf | NInf | NaN

instantiation jsnum :: "{plus, minus, uminus, times, inverse, ord}"
begin

fun uminus_jsnum :: "jsnum \<Rightarrow> jsnum" where
  "uminus_jsnum (Fin a) = Fin (- a)"
| "uminus_jsnum PInf = NInf"
| "uminus_jsnum NInf = PInf"
| "uminus_jsnum NaN = NaN"

fun plus_jsnum :: "jsnum \<Rightarrow> jsnum \<Rightarrow> jsnum" where
  "plus_jsnum (Fin a) (Fin b) = Fin (a + b)"
| "plus_jsnum NaN _ = NaN"
| "plus_jsnum _ NaN = NaN"
| "plus_jsnum PInf NInf = NaN"
| "plus_jsnum NInf PInf = NaN"
| "plus_jsnum PInf _ = PInf"
| "plus_jsnum _ PInf = PInf"
| "plus_jsnum NInf _ = NInf"
| "plus_jsnum _ NInf = NInf"

definition minus_jsnum :: "jsnum \<Rightarrow> jsnum \<Rightarrow> jsnum" where
  "minus_jsnum a b = a + (- b)"

text \<open>The sign of a product with an infinity: NaN when the other factor is zero.\<close>

fun times_jsnum :: "jsnum \<Rightarrow> jsnum \<Rightarrow> jsnum" where
  "times_jsnum (Fin a) (Fin b) = Fin (a * b)"
| "times_jsnum NaN _ = NaN"
| "times_jsnum _ NaN = NaN"
| "times_jsnum (Fin a) PInf = (if a = 0 then NaN else if 0 < a then PInf else NInf)"
| "times_jsnum (Fin a) NInf = (if a = 0 then NaN else if 0 < a then NInf else PInf)"
| "times_jsnum PInf (Fin b) = (if b = 0 then NaN else if 0 < b then PInf else NInf)"
| "times_jsnum NInf (Fin b) = (if b = 0 then NaN else if 0 < b then NInf else PInf)"
| "times_jsnum PInf PInf = PInf"
| "times_jsnum NInf NInf = PInf"
| "times_jsnum PInf NInf = NInf"
| "times_jsnum NInf PInf = NInf"

text \<open>
  Division. A finite non-zero value divided by zero is an infinity whose sign depends on
  the sign of the zero, which the model does not have; every divisor in the source is a
  non-zero literal, so that case is never reached.
\<close>

fun divide_jsnum :: "jsnum \<Rightarrow> jsnum \<Rightarrow> jsnum" where
  "divide_jsnum (Fin a) (Fin b) =
     (if b = 0 then (if a = 0 then NaN else if 0 < a then PInf else NInf) else Fin (a / b))"
| "divide_jsnum NaN _ = NaN"
| "divide_jsnum _ NaN = NaN"
| "divide_jsnum (Fin a) _ = Fin 0"
| "divide_jsnum PInf (Fin b) = (if 0 \<le> b then PInf else NInf)"
| "divide_jsnum NInf (Fin b) = (if 0 \<le> b then NInf else PInf)"
| "divide_jsnum PInf PInf = NaN"
| "divide_jsnum PInf NInf = NaN"
| "divide_jsnum NInf PInf = NaN"
| "divide_jsnum NInf NInf = NaN"

fun inverse_jsnum :: "jsnum \<Rightarrow> jsnum" where
  "inverse_jsnum (Fin b) = (if b = 0 then PInf else Fin (1 / b))"
| "inverse_jsnum NaN = NaN"
| "inverse_jsnum _ = Fin 0"

fun less_jsnum :: "jsnum \<Rightarrow> jsnum \<Rightarrow> bool" where
  "less_jsnum (Fin a) (Fin b) = (a < b)"
| "less_jsnum NaN _ = False"
| "less_jsnum _ NaN = False"
| "less_jsnum _ NInf = False"
| "less_jsnum PInf _ = False"
| "less_jsnum NInf _ = True"
| "less_jsnum _ PInf = True"

fun less_eq_jsnum :: "jsnum \<Rightarrow> jsnum \<Rightarrow> bool" where
  "less_eq_jsnum (Fin a) (Fin b) = (a \<le> b)"
| "less_eq_jsnum NaN _ = False"
| "less_eq_jsnum _ NaN = False"
| "less_eq_jsnum NInf _ = True"
| "less_eq_jsnum _ PInf = True"
| "less_eq_jsnum _ NInf = False"
| "less_eq_jsnum PInf _ = False"

instance ..

end

text \<open>\<^verbatim>\<open>Math.floor\<close>, \<^verbatim>\<open>Math.max\<close> and \<^verbatim>\<open>Math.min\<close> of two arguments.\<close>

fun Math_floor :: "jsnum \<Rightarrow> jsnum" where
  "Math_floor (Fin a) = Fin (of_int \<lfloor>a\<rfloor>)"
| "Math_floor v = v"

fun Math_max :: "jsnum \<Rightarrow> jsnum \<Rightarrow> jsnum" where
  "Math_max NaN _ = NaN"
| "Math_max _ NaN = NaN"
| "Math_max a b = (if a < b then b else a)"

fun Math_min :: "jsnum \<Rightarrow> jsnum \<Rightarrow> jsnum" where
  "Math_min NaN _ = NaN"
| "Math_min _ NaN = NaN"
| "Math_min a b = (if b < a then b else a)"

section \<open>Application state\<close>

text \<open>The enum \<^verbatim>\<open>ColorMode\<close> of the type declarations.\<close>

datatype ColorMode =
  ORIGINAL | COOL_BLACK | CYBERPUNK | MATRIX | GOLDEN | OCEAN
  | INFERNO | VAPORWAVE | ARCTIC | MONO | SEPIA | BLUEPRINT

text \<open>
  The fields of \<^verbatim>\<open>AppState\<close> that the image effect of \<^verbatim>\<open>PixelCloud\<close> reads (its
  dependency list); the other fields never reach the point cloud.
\<close>

record AppState =
  samplingStep :: jsnum
  particleSize :: jsnum
  zExtrusion :: jsnum
  transparencyThreshold :: jsnum
  colorMode :: ColorMode
  brightness :: jsnum
  tintColor :: string

section \<open>Colour transform\<close>

text \<open>
  \<^verbatim>\<open>applyColorMode\<close>. The constructor \<^verbatim>\<open>THREE.Color\<close> belongs to a library outside
  the repository: it is the parameter \<open>Color\<close>, from a colour string to the three
  channels of the colour object.
\<close>

definition applyColorMode ::
  "(string \<Rightarrow> jsnum \<times> jsnum \<times> jsnum) \<Rightarrow> jsnum \<Rightarrow> jsnum \<Rightarrow> jsnum \<Rightarrow> ColorMode
     \<Rightarrow> jsnum \<Rightarrow> string \<Rightarrow> jsnum \<times> jsnum \<times> jsnum" where
  "applyColorMode Color r g b mode brightness' tintHex =
    (let normR = r / Fin 255;
         normG = g / Fin 255;
         normB = b / Fin 255;
         gray = normR * Fin 0.299 + normG * Fin 0.587 + normB * Fin 0.114;
         (finalR, finalG, finalB) =
           (case mode of
              COOL_BLACK \<Rightarrow> (gray * Fin 0.2, gray * Fin 0.2, gray * Fin 0.3 + Fin 0.1)
            | CYBERPUNK \<Rightarrow> (normR * Fin 1.2, normG * Fin 0.8, normB * Fin 1.5)
            | MATRIX \<Rightarrow> (Fin 0, gray * Fin 1.5, Fin 0)
            | GOLDEN \<Rightarrow> (gray * Fin 1.2, gray * Fin 0.9, gray * Fin 0.2)
            | OCEAN \<Rightarrow> (Fin 0, gray * Fin 0.8, gray * Fin 1.2)
            | INFERNO \<Rightarrow> (gray * Fin 1.5, gray * Fin 0.5, Fin 0)
            | VAPORWAVE \<Rightarrow>
                (Math_min (Fin 1) (normR + Fin 0.2), normG * Fin 0.8,
                 Math_min (Fin 1) (normB + Fin 0.3))
            | ARCTIC \<Rightarrow> (gray * Fin 0.8, gray * Fin 0.9, Fin 1.0)
            | MONO \<Rightarrow> (gray, gray, gray)
            | SEPIA \<Rightarrow>
                (Math_min (Fin 1) ((normR * Fin 0.393) + (normG * Fin 0.769) + (normB * Fin 0.189)),
                 Math_min (Fin 1) ((normR * Fin 0.349) + (normG * Fin 0.686) + (normB * Fin 0.168)),
                 Math_min (Fin 1) ((normR * Fin 0.272) + (normG * Fin 0.534) + (normB * Fin 0.131)))
            | BLUEPRINT \<Rightarrow> (Fin 0, gray * Fin 0.5, Fin 1.0)
            | ORIGINAL \<Rightarrow> (normR, normG, normB));
         (finalR, finalG, finalB) =
           (if tintHex \<noteq> ''#ffffff''
            then (case Color tintHex of
                    (tintR, tintG, tintB) \<Rightarrow> (finalR * tintR, finalG * tintG, finalB * tintB))
            else (finalR, finalG, finalB))
     in (finalR * brightness', finalG * brightness', finalB * brightness'))"

section \<open>Sampler\<close>

text \<open>
  The raster \<^verbatim>\<open>imgData\<close> that the image effect of \<^verbatim>\<open>PixelCloud\<close> reads from the
  canvas: its dimensions and its RGBA bytes, row-major. Decoding and the downscaling to
  512 pixels are the browser's work and happen before the loops. The canvas hands out
  four bytes for each pixel; the loops do not rely on it, and neither does the model.
\<close>

record ImageData =
  width :: nat
  height :: nat
  data :: "8 word list"

text \<open>
  \<^verbatim>\<open>data[i]\<close> on the byte array. An index that is not an element index (beyond the end,
  fractional, infinite or NaN) reads \<^verbatim>\<open>undefined\<close>; every use in the source converts
  the value to a number, which makes it NaN.
\<close>

definition data_at :: "8 word list \<Rightarrow> jsnum \<Rightarrow> jsnum" where
  "data_at d i =
    (case i of
       Fin v \<Rightarrow>
         (if 0 \<le> v \<and> v = of_int \<lfloor>v\<rfloor> \<and> nat \<lfloor>v\<rfloor> < length d
          then Fin (real (unat (d ! nat \<lfloor>v\<rfloor>))) else NaN)
     | _ \<Rightarrow> NaN)"

text \<open>
  The body of the inner loop: one pixel at column \<open>x\<close> of row \<open>y\<close>, with the arrays
  \<^verbatim>\<open>validPoints\<close> and \<^verbatim>\<open>validColors\<close> as the accumulator.
\<close>

definition visit ::
  "(string \<Rightarrow> jsnum \<times> jsnum \<times> jsnum) \<Rightarrow> ImageData \<Rightarrow> AppState \<Rightarrow> jsnum \<Rightarrow> jsnum
     \<Rightarrow> jsnum list \<times> jsnum list \<Rightarrow> jsnum list \<times> jsnum list" where
  "visit Color imgData appState y x acc =
    (let w = Fin (real (width imgData));
         h = Fin (real (height imgData));
         offsetX = w / Fin 2;
         offsetY = h / Fin 2;
         i = (y * w + x) * Fin 4;
         r = data_at (data imgData) i;
         g = data_at (data imgData) (i + Fin 1);
         b = data_at (data imgData) (i + Fin 2);
         a = data_at (data imgData) (i + Fin 3)
     in if a \<ge> transparencyThreshold appState
        then
          (let brightnessVal = (r + g + b) / (Fin 3 * Fin 255);
               posX = (x - offsetX) * particleSize appState * Fin 0.02;
               posY = (- (y - offsetY)) * particleSize appState * Fin 0.02;
               posZ = brightnessVal * zExtrusion appState * Fin 0.02;
               (cr, cg, cb) =
                 applyColorMode Color r g b (colorMode appState) (brightness appState)
                   (tintColor appState)
           in (fst acc @ [posX, posY, posZ], snd acc @ [cr, cg, cb]))
        else acc)"

text \<open>
  The two \<^verbatim>\<open>for\<close> loops. The loop variables are numbers and the stride is whatever
  the caller passes, so a loop may run forever (a stride of zero): not returning is
  \<open>None\<close>.
\<close>

partial_function (option) loop_x ::
  "(string \<Rightarrow> jsnum \<times> jsnum \<times> jsnum) \<Rightarrow> ImageData \<Rightarrow> AppState \<Rightarrow> jsnum \<Rightarrow> jsnum \<Rightarrow> jsnum
     \<Rightarrow> jsnum list \<times> jsnum list \<Rightarrow> (jsnum list \<times> jsnum list) option" where
  "loop_x Color imgData appState step y x acc =
    (if x < Fin (real (width imgData))
     then loop_x Color imgData appState step y (x + step) (visit Color imgData appState y x acc)
     else Some acc)"

partial_function (option) loop_y ::
  "(string \<Rightarrow> jsnum \<times> jsnum \<times> jsnum) \<Rightarrow> ImageData \<Rightarrow> AppState \<Rightarrow> jsnum \<Rightarrow> jsnum
     \<Rightarrow> jsnum list \<times> jsnum list \<Rightarrow> (jsnum list \<times> jsnum list) option" where
  "loop_y Color imgData appState step y acc =
    (if y < Fin (real (height imgData))
     then Option.bind (loop_x Color imgData appState step y (Fin 0) acc)
            (\<lambda>acc'. loop_y Color imgData appState step (y + step) acc')
     else Some acc)"

declare loop_x.simps [code] loop_y.simps [code]

text \<open>
  The component's state \<^verbatim>\<open>particlesData\<close> (\<^verbatim>\<open>null\<close> until the first image is
  processed) and the handler that runs when the image has loaded: it computes the two
  arrays and replaces the state.
\<close>

record particles =
  pos :: "jsnum list"
  col :: "jsnum list"

record store =
  particlesData :: "particles option"

definition img_onload ::
  "(string \<Rightarrow> jsnum \<times> jsnum \<times> jsnum) \<Rightarrow> ImageData \<Rightarrow> AppState \<Rightarrow> store \<Rightarrow> store option" where
  "img_onload Color imgData appState s =
    (let step = Math_max (Fin 1) (Math_floor (samplingStep appState)) in
     case loop_y Color imgData appState step (Fin 0) ([], []) of
       None \<Rightarrow> None
     | Some (validPoints, validColors) \<Rightarrow>
         Some (s\<lparr>particlesData := Some \<lparr>pos = validPoints, col = validColors\<rparr>\<rparr>))"

section \<open>Mesh exporter\<close>

text \<open>
  Number formatting. \<open>Number_toString\<close> is the conversion a template literal applies to
  a number: decimal digits for an integer of magnitude below \<open>10\<^sup>2\<^sup>1\<close>, and the names of
  NaN and the infinities. For the other finite values the text is the shortest one that
  reads back as the same binary floating-point number, which exact reals cannot say: there
  the parameter \<open>toStr\<close> stands for the runtime's conversion.
\<close>

fun digits :: "nat \<Rightarrow> string" where
  "digits n =
    (if n < 10 then [''0123456789'' ! n]
     else digits (n div 10) @ [''0123456789'' ! (n mod 10)])"

declare digits.simps [simp del]

definition Number_toString :: "(real \<Rightarrow> string) \<Rightarrow> jsnum \<Rightarrow> string" where
  "Number_toString toStr v =
    (case v of
       NaN \<Rightarrow> ''NaN''
     | PInf \<Rightarrow> ''Infinity''
     | NInf \<Rightarrow> ''-Infinity''
     | Fin a \<Rightarrow>
         (if a = of_int \<lfloor>a\<rfloor> \<and> \<bar>a\<bar> < 10 ^ 21
          then (if a < 0 then ''-'' else []) @ digits (nat \<lfloor>\<bar>a\<bar>\<rfloor>)
          else toStr a))"

text \<open>
  \<^verbatim>\<open>x.toFixed(3)\<close> on a number: the sign, then the integer \<open>n\<close> nearest to
  \<open>\<bar>x\<bar> * 1000\<close> (the larger one of two equally near), padded to four digits, with a point
  before the last three. From \<open>10\<^sup>2\<^sup>1\<close> on the method falls back to \<open>Number_toString\<close>.
\<close>

definition toFixed3 :: "(real \<Rightarrow> string) \<Rightarrow> jsnum \<Rightarrow> string" where
  "toFixed3 toStr v =
    (case v of
       Fin a \<Rightarrow>
         (let s = (if a < 0 then ''-'' else []);
              x = \<bar>a\<bar>
          in if x \<ge> 10 ^ 21 then s @ Number_toString toStr (Fin x)
             else
               (let n = nat \<lfloor>x * 1000 + 1 / 2\<rfloor>;
                    m = digits n;
                    m = (if length m \<le> 3 then replicate (3 + 1 - length m) CHR ''0'' @ m else m);
                    k = length m
                in s @ take (k - 3) m @ ''.'' @ drop (k - 3) m))
     | _ \<Rightarrow> Number_toString toStr v)"

text \<open>
  Reading an element of an array gives \<^verbatim>\<open>undefined\<close> (\<open>None\<close>) beyond its end.
  Calling \<^verbatim>\<open>toFixed\<close> on \<^verbatim>\<open>undefined\<close> throws a \<^verbatim>\<open>TypeError\<close>; arithmetic on it
  gives NaN.
\<close>

datatype error = TypeError

definition elem :: "'a list \<Rightarrow> nat \<Rightarrow> 'a option" where
  "elem xs i = (if i < length xs then Some (xs ! i) else None)"

definition toFixed :: "(real \<Rightarrow> string) \<Rightarrow> jsnum option \<Rightarrow> error + string" where
  "toFixed toStr v = (case v of None \<Rightarrow> Inl TypeError | Some x \<Rightarrow> Inr (toFixed3 toStr x))"

definition ToNumber :: "jsnum option \<Rightarrow> jsnum" where
  "ToNumber v = (case v of None \<Rightarrow> NaN | Some x \<Rightarrow> x)"

text \<open>
  The product of two numbers as the machine computes it: the exact product of two finite
  values, rounded to binary64. The rounding is the parameter \<open>round64\<close>, from the exact
  product to the nearest binary64 value, an infinity when the product overflows. The
  exporter floors such a product, and the floor of the rounded product can be one more
  than the floor of the exact one.
\<close>

definition times64 :: "(real \<Rightarrow> jsnum) \<Rightarrow> jsnum \<Rightarrow> jsnum \<Rightarrow> jsnum" where
  "times64 round64 a b = (case a * b of Fin v \<Rightarrow> round64 v | v \<Rightarrow> v)"

text \<open>The body of the export loop: the text of the vertex that starts at index \<open>i\<close>.\<close>

definition vertex_line ::
  "(real \<Rightarrow> jsnum) \<Rightarrow> (real \<Rightarrow> string) \<Rightarrow> particles \<Rightarrow> nat \<Rightarrow> error + string" where
  "vertex_line round64 toStr p i =
    (let x = elem (pos p) i;
         y = elem (pos p) (i + 1);
         z = elem (pos p) (i + 2);
         r = Math_min (Fin 255) (Math_max (Fin 0)
               (Math_floor (times64 round64 (ToNumber (elem (col p) i)) (Fin 255))));
         g = Math_min (Fin 255) (Math_max (Fin 0)
               (Math_floor (times64 round64 (ToNumber (elem (col p) (i + 1))) (Fin 255))));
         b = Math_min (Fin 255) (Math_max (Fin 0)
               (Math_floor (times64 round64 (ToNumber (elem (col p) (i + 2))) (Fin 255))))
     in case toFixed toStr x of
          Inl e \<Rightarrow> Inl e
        | Inr xs \<Rightarrow>
            (case toFixed toStr y of
               Inl e \<Rightarrow> Inl e
             | Inr ys \<Rightarrow>
                 (case toFixed toStr z of
                    Inl e \<Rightarrow> Inl e
                  | Inr zs \<Rightarrow>
                      Inr (xs @ '' '' @ ys @ '' '' @ zs @ '' '' @ Number_toString toStr r @ '' ''
                           @ Number_toString toStr g @ '' '' @ Number_toString toStr b
                           @ [CHR 0x0A]))))"

function export_loop ::
  "(real \<Rightarrow> jsnum) \<Rightarrow> (real \<Rightarrow> string) \<Rightarrow> particles \<Rightarrow> nat \<Rightarrow> string \<Rightarrow> error + string" where
  "export_loop round64 toStr p i plyContent =
    (if i < length (pos p)
     then (case vertex_line round64 toStr p i of
             Inl e \<Rightarrow> Inl e
           | Inr l \<Rightarrow> export_loop round64 toStr p (i + 3) (plyContent @ l))
     else Inr plyContent)"
  by pat_completeness auto
termination
  by (relation "measure (\<lambda>(round64, toStr, p, i, plyContent). length (pos p) - i)") auto

text \<open>
  The header of the file, with the text of the vertex count in its third line.
\<close>

definition ply_header :: "string \<Rightarrow> string" where
  "ply_header count =
     ''ply'' @ [CHR 0x0A] @
     ''format ascii 1.0'' @ [CHR 0x0A] @
     ''element vertex '' @ count @ [CHR 0x0A] @
     ''property float x'' @ [CHR 0x0A] @
     ''property float y'' @ [CHR 0x0A] @
     ''property float z'' @ [CHR 0x0A] @
     ''property uchar red'' @ [CHR 0x0A] @
     ''property uchar green'' @ [CHR 0x0A] @
     ''property uchar blue'' @ [CHR 0x0A] @
     ''end_header'' @ [CHR 0x0A]"

text \<open>
  \<^verbatim>\<open>exportPLY\<close>. \<open>Inr None\<close>: the function returned at its guard and made no file;
  \<open>Inr (Some text)\<close>: the text of the blob it offers for download; \<open>Inl\<close>: it threw.
\<close>

definition exportPLY ::
  "(real \<Rightarrow> jsnum) \<Rightarrow> (real \<Rightarrow> string) \<Rightarrow> store \<Rightarrow> error + string option" where
  "exportPLY round64 toStr s =
    (case particlesData s of
       None \<Rightarrow> Inr None
     | Some p \<Rightarrow>
         (if length (pos p) = 0 then Inr None
          else
            (let plyContent =
                   ply_header (Number_toString toStr (Fin (real (length (pos p))) / Fin 3))
             in case export_loop round64 toStr p 0 plyContent of
                  Inl e \<Rightarrow> Inl e
                | Inr text \<Rightarrow> Inr (Some text))))"

section \<open>The scan as the specification describes it\<close>

text \<open>
  The definitions of this section follow the specification's words; the properties below
  compare them with the loops above.

  The effective stride, \<open>max(1, floor(step))\<close>.
\<close>

definition step_of :: "AppState \<Rightarrow> jsnum" where
  "step_of appState = Math_max (Fin 1) (Math_floor (samplingStep appState))"

text \<open>
  The coordinates below \<open>n\<close> on the sampling grid: the multiples of a finite stride. With
  an infinite or NaN stride only the origin is on the grid.
\<close>

definition strided :: "jsnum \<Rightarrow> nat \<Rightarrow> nat list" where
  "strided step n =
    (case step of
       Fin k \<Rightarrow> [v \<leftarrow> [0..<n]. v mod nat \<lfloor>k\<rfloor> = 0]
     | _ \<Rightarrow> [v \<leftarrow> [0..<n]. v = 0])"

text \<open>The visited coordinates \<open>(x, y)\<close> in row-major order: \<open>y\<close> outer, \<open>x\<close> inner.\<close>

definition scan :: "ImageData \<Rightarrow> AppState \<Rightarrow> (nat \<times> nat) list" where
  "scan imgData appState =
    concat (map (\<lambda>y. map (\<lambda>x. (x, y)) (strided (step_of appState) (width imgData)))
              (strided (step_of appState) (height imgData)))"

definition row_major :: "nat \<times> nat \<Rightarrow> nat \<times> nat \<Rightarrow> bool" where
  "row_major c c' = (snd c < snd c' \<or> (snd c = snd c' \<and> fst c < fst c'))"

text \<open>Channel \<open>k\<close> (0 to 3: red, green, blue, alpha) of the pixel at \<open>(x, y)\<close>.\<close>

definition channel :: "ImageData \<Rightarrow> nat \<times> nat \<Rightarrow> nat \<Rightarrow> jsnum" where
  "channel imgData c k =
    data_at (data imgData) (Fin (real ((snd c * width imgData + fst c) * 4 + k)))"

text \<open>The alpha filter: a pixel is skipped when its alpha is below the threshold.\<close>

definition retained :: "ImageData \<Rightarrow> AppState \<Rightarrow> nat \<times> nat \<Rightarrow> bool" where
  "retained imgData appState c = (channel imgData c 3 \<ge> transparencyThreshold appState)"

definition retained_pixels :: "ImageData \<Rightarrow> AppState \<Rightarrow> (nat \<times> nat) list" where
  "retained_pixels imgData appState = filter (retained imgData appState) (scan imgData appState)"

text \<open>The position and the colour of the point of a retained pixel.\<close>

definition luma :: "ImageData \<Rightarrow> nat \<times> nat \<Rightarrow> jsnum" where
  "luma imgData c =
    (channel imgData c 0 + channel imgData c 1 + channel imgData c 2) / Fin (3 * 255)"

definition position :: "ImageData \<Rightarrow> AppState \<Rightarrow> nat \<times> nat \<Rightarrow> jsnum list" where
  "position imgData appState c =
    [Fin (real (fst c) - real (width imgData) / 2) * particleSize appState * Fin 0.02,
     Fin (- (real (snd c) - real (height imgData) / 2)) * particleSize appState * Fin 0.02,
     luma imgData c * zExtrusion appState * Fin 0.02]"

text \<open>
  The same position over the reals, for a finite particle size and extrusion: byte \<open>k\<close> of
  a pixel inside the raster, its luma \<open>(r + g + b) / (3 * 255)\<close>, and the three
  coordinates with the scale constant 0.02.
\<close>

definition byte :: "ImageData \<Rightarrow> nat \<times> nat \<Rightarrow> nat \<Rightarrow> nat" where
  "byte imgData c k = unat (data imgData ! ((snd c * width imgData + fst c) * 4 + k))"

definition real_luma :: "ImageData \<Rightarrow> nat \<times> nat \<Rightarrow> real" where
  "real_luma imgData c =
    (real (byte imgData c 0) + real (byte imgData c 1) + real (byte imgData c 2)) / (3 * 255)"

definition real_position :: "ImageData \<Rightarrow> real \<Rightarrow> real \<Rightarrow> nat \<times> nat \<Rightarrow> real list" where
  "real_position imgData psize extrusion c =
    [(real (fst c) - real (width imgData) / 2) * psize * 0.02,
     - (real (snd c) - real (height imgData) / 2) * psize * 0.02,
     real_luma imgData c * extrusion * 0.02]"

definition colour ::
  "(string \<Rightarrow> jsnum \<times> jsnum \<times> jsnum) \<Rightarrow> ImageData \<Rightarrow> AppState \<Rightarrow> nat \<times> nat \<Rightarrow> jsnum list" where
  "colour Color imgData appState c =
    (case applyColorMode Color (channel imgData c 0) (channel imgData c 1) (channel imgData c 2)
            (colorMode appState) (brightness appState) (tintColor appState) of
       (cr, cg, cb) \<Rightarrow> [cr, cg, cb])"

definition cloud_of ::
  "(string \<Rightarrow> jsnum \<times> jsnum \<times> jsnum) \<Rightarrow> ImageData \<Rightarrow> AppState \<Rightarrow> (nat \<times> nat) list
     \<Rightarrow> particles" where
  "cloud_of Color imgData appState cs =
    \<lparr>pos = concat (map (position imgData appState) cs),
     col = concat (map (colour Color imgData appState) cs)\<rparr>"

section \<open>Reading a PLY text back\<close>

text \<open>
  The definitions of this section follow the specification's round-trip property: the text
  is cut into lines at the line feeds, a vertex line into six fields at the spaces, and the
  fields are read as decimal numbers. The vertex lines are the lines after
  \<^verbatim>\<open>end_header\<close>.
\<close>

fun split_on :: "char \<Rightarrow> string \<Rightarrow> string list" where
  "split_on sep [] = [[]]"
| "split_on sep (c # cs) =
    (if c = sep then [] # split_on sep cs
     else (case split_on sep cs of [] \<Rightarrow> [[c]] | f # fs \<Rightarrow> (c # f) # fs))"

text \<open>Every line ends with a line feed; what follows the last line feed is not a line.\<close>

definition lines_of :: "string \<Rightarrow> string list" where
  "lines_of text = butlast (split_on (CHR 0x0A) text)"

definition header_lines :: "string \<Rightarrow> string list" where
  "header_lines text = takeWhile (\<lambda>l. l \<noteq> ''end_header'') (lines_of text)"

definition vertex_lines :: "string \<Rightarrow> string list" where
  "vertex_lines text = tl (dropWhile (\<lambda>l. l \<noteq> ''end_header'') (lines_of text))"

definition digit_val :: "char \<Rightarrow> nat option" where
  "digit_val = map_of (zip ''0123456789'' [0, 1, 2, 3, 4, 5, 6, 7, 8, 9])"

fun read_digits :: "nat \<Rightarrow> string \<Rightarrow> nat option" where
  "read_digits acc [] = Some acc"
| "read_digits acc (c # cs) =
    (case digit_val c of None \<Rightarrow> None | Some d \<Rightarrow> read_digits (10 * acc + d) cs)"

definition parse_nat :: "string \<Rightarrow> nat option" where
  "parse_nat s = (if s = [] then None else read_digits 0 s)"

text \<open>A decimal number: an optional minus sign, digits, a point, digits.\<close>

definition parse_decimal :: "string \<Rightarrow> real option" where
  "parse_decimal s =
    (let negative = (s \<noteq> [] \<and> hd s = CHR ''-'');
         body = (if negative then tl s else s);
         whole = takeWhile (\<lambda>c. c \<noteq> CHR ''.'') body;
         fraction = drop (length whole + 1) body
     in case (parse_nat whole, parse_nat fraction) of
          (Some i, Some f) \<Rightarrow>
            Some ((if negative then - 1 else 1) * (real i + real f / 10 ^ length fraction))
        | _ \<Rightarrow> None)"

definition parse_vertex :: "string \<Rightarrow> (real \<times> real \<times> real \<times> nat \<times> nat \<times> nat) option" where
  "parse_vertex l =
    (case split_on CHR '' '' l of
       [fx, fy, fz, fr, fg, fb] \<Rightarrow>
         (case (parse_decimal fx, parse_decimal fy, parse_decimal fz,
                parse_nat fr, parse_nat fg, parse_nat fb) of
            (Some x, Some y, Some z, Some r, Some g, Some b) \<Rightarrow> Some (x, y, z, r, g, b)
          | _ \<Rightarrow> None)
     | _ \<Rightarrow> None)"

text \<open>
  The text of a real number with three decimals: the sign, the digits of the whole part
  of the nearest multiple of a thousandth, a point, and three digits.
\<close>

definition pad3 :: "nat \<Rightarrow> string" where
  "pad3 m =
    [''0123456789'' ! (m div 100), ''0123456789'' ! (m div 10 mod 10), ''0123456789'' ! (m mod 10)]"

definition fixed3 :: "real \<Rightarrow> string" where
  "fixed3 v =
    (let n = nat \<lfloor>\<bar>v\<bar> * 1000 + 1 / 2\<rfloor>
     in (if v < 0 then ''-'' else []) @ digits (n div 1000) @ ''.'' @ pad3 (n mod 1000))"

text \<open>
  The multiple of a thousandth nearest to a real number, a tie going away from zero: the
  value that the three decimals of \<open>fixed3\<close> denote.
\<close>

definition rounded3 :: "real \<Rightarrow> real" where
  "rounded3 v = (if v < 0 then - 1 else 1) * (real (nat \<lfloor>\<bar>v\<bar> * 1000 + 1 / 2\<rfloor>) / 1000)"

text \<open>
  A colour channel as a byte: the channel scaled by 255 (the machine's product, a finite
  number or an infinity), floored and clamped to 0 .. 255. The product of two finite
  numbers is never NaN; the value given for it is not used.
\<close>

definition clamp_byte :: "jsnum \<Rightarrow> nat" where
  "clamp_byte scaled =
    (case scaled of
       Fin v \<Rightarrow> nat (min 255 (max 0 \<lfloor>v\<rfloor>))
     | PInf \<Rightarrow> 255
     | NInf \<Rightarrow> 0
     | NaN \<Rightarrow> 0)"

text \<open>
  The line of vertex \<open>j\<close> of a cloud of finite numbers, without its line feed: three
  coordinates with three decimals and three colour bytes, separated by spaces.
\<close>

definition vertex_text :: "(real \<Rightarrow> jsnum) \<Rightarrow> real list \<Rightarrow> real list \<Rightarrow> nat \<Rightarrow> string" where
  "vertex_text round64 ps cs j =
    fixed3 (ps ! (3 * j)) @ '' '' @ fixed3 (ps ! (3 * j + 1)) @ '' '' @ fixed3 (ps ! (3 * j + 2))
    @ '' '' @ digits (clamp_byte (round64 (cs ! (3 * j) * 255)))
    @ '' '' @ digits (clamp_byte (round64 (cs ! (3 * j + 1) * 255)))
    @ '' '' @ digits (clamp_byte (round64 (cs ! (3 * j + 2) * 255)))"

section \<open>Example inputs\<close>

text \<open>
  A colour constructor, a number conversion and a rounding for the examples. The
  constructor agrees with the library on white and on pure red, the only tints the
  examples use; no example reaches the number conversion. The rounding agrees with
  binary64 on the products whose bytes the examples state: they are binary64 values
  themselves, but for 255 times the binary64 value nearest to 0.6, which is just below
  153 and rounds to 153.
\<close>

definition example_Color :: "string \<Rightarrow> jsnum \<times> jsnum \<times> jsnum" where
  "example_Color hex = (if hex = ''#ff0000'' then (Fin 1, Fin 0, Fin 0) else (Fin 1, Fin 1, Fin 1))"

definition example_toStr :: "real \<Rightarrow> string" where
  "example_toStr a = ''?''"

definition example_round64 :: "real \<Rightarrow> jsnum" where
  "example_round64 v =
    (if v = 5404319552844595 / 9007199254740992 * 255 then Fin 153 else Fin v)"

text \<open>A single opaque white pixel, and a 4 by 2 raster with two transparent pixels.\<close>

definition white_pixel :: ImageData where
  "white_pixel = \<lparr>width = 1, height = 1, data = [255, 255, 255, 255]\<rparr>"

definition raster_4x2 :: ImageData where
  "raster_4x2 =
    \<lparr>width = 4, height = 2,
     data = [255, 0, 0, 255,   0, 255, 0, 10,   0, 0, 255, 255,   51, 102, 153, 200,
             10, 20, 30, 0,    1, 2, 3, 255,    4, 5, 6, 255,     7, 8, 9, 19]\<rparr>"

text \<open>A fully transparent black raster, 4 by 4.\<close>

definition transparent_4x4 :: ImageData where
  "transparent_4x4 = \<lparr>width = 4, height = 4, data = replicate 64 0\<rparr>"

text \<open>
  The scenario of the single visible pixel, for a given particle size and extrusion, and
  the initial state of the application.
\<close>

definition scenario :: "jsnum \<Rightarrow> jsnum \<Rightarrow> AppState" where
  "scenario psize extrusion =
    \<lparr>samplingStep = Fin 1, particleSize = psize, zExtrusion = extrusion,
     transparencyThreshold = Fin 0, colorMode = ORIGINAL, brightness = Fin 1,
     tintColor = ''#ffffff''\<rparr>"

definition initial_state :: AppState where
  "initial_state =
    \<lparr>samplingStep = Fin 3.0, particleSize = Fin 1.5, zExtrusion = Fin 400,
     transparencyThreshold = Fin 20, colorMode = ORIGINAL, brightness = Fin 1.0,
     tintColor = ''#ffffff''\<rparr>"

definition empty_store :: store where
  "empty_store = \<lparr>particlesData = None\<rparr>"

section \<open>Properties\<close>

subsection \<open>JavaScript arithmetic on finite values\<close>

lemma jsnum_mult_one [simp]: "(v :: jsnum) * Fin 1 = v"
  by (cases v) simp_all

lemma Fin_minus [simp]: "Fin a - Fin b = Fin (a - b)"
  by (simp add: minus_jsnum_def)

subsection \<open>The loops visit the sampling grid\<close>

text \<open>The effective stride is a positive integer, infinite or NaN.\<close>

lemma step_of_cases:
  obtains k where "0 < k" and "step_of st = Fin (real k)"
  | "step_of st = PInf" | "step_of st = NaN"
proof (cases "samplingStep st")
  case (Fin a)
  show ?thesis
  proof (cases "1 < \<lfloor>a\<rfloor>")
    case True
    then have "step_of st = Fin (real (nat \<lfloor>a\<rfloor>))" "0 < nat \<lfloor>a\<rfloor>"
      using Fin by (simp_all add: step_of_def)
    then show ?thesis using that(1) by blast
  next
    case False
    then have "step_of st = Fin (real (1::nat))"
      using Fin by (simp add: step_of_def)
    then show ?thesis using that(1) [of 1] by simp
  qed
qed (simp_all add: step_of_def that)

lemma grid_step:
  assumes "0 < k" "x0 mod k = 0" "x0 < n"
  shows "[x \<leftarrow> [x0..<n]. x mod k = 0] = x0 # [x \<leftarrow> [x0 + k..<n]. x mod k = (0::nat)]"
proof -
  have between: "\<And>x. x0 < x \<Longrightarrow> x < x0 + k \<Longrightarrow> x mod k \<noteq> 0"
  proof
    fix x assume a: "x0 < x" "x < x0 + k" "x mod k = 0"
    from assms(2) a(3) have "k dvd x - x0" by (simp add: dvd_diff_nat mod_eq_0_iff_dvd)
    moreover have "0 < x - x0" "x - x0 < k" using a by auto
    ultimately show False by (auto dest: dvd_imp_le)
  qed
  have "[x0..<n] = x0 # [Suc x0..<n]" using assms(3) by (simp add: upt_conv_Cons)
  moreover have "[x \<leftarrow> [Suc x0..<n]. x mod k = 0] = [x \<leftarrow> [x0 + k..<n]. x mod k = 0]"
  proof (cases "x0 + k \<le> n")
    case True
    have "[Suc x0..<n] = [Suc x0..<x0 + k] @ [x0 + k..<n]"
      using True assms(1) upt_add_eq_append [of "Suc x0" "x0 + k" "n - (x0 + k)"] by simp
    moreover have "[x \<leftarrow> [Suc x0..<x0 + k]. x mod k = 0] = []"
      using between by (auto simp: filter_empty_conv)
    ultimately show ?thesis by simp
  next
    case False
    then have e: "[x0 + k..<n] = []" by simp
    have "[x \<leftarrow> [Suc x0..<n]. x mod k = 0] = []"
      using between False by (auto simp: filter_empty_conv)
    then show ?thesis by (simp only: e filter.simps)
  qed
  ultimately show ?thesis using assms(2) by simp
qed

lemma origin_only: "[v \<leftarrow> [0..<n]. v = 0] = (if 0 < n then [0::nat] else [])"
proof (cases n)
  case 0
  then show ?thesis by simp
next
  case (Suc m)
  have "[0..<Suc m] = 0 # [Suc 0..<Suc m]" by (simp add: upt_conv_Cons)
  moreover have "[v \<leftarrow> [Suc 0..<Suc m]. v = 0] = []" by (auto simp: filter_empty_conv)
  ultimately show ?thesis using Suc by simp
qed

lemma strided_Fin [simp]: "strided (Fin (real k)) n = [v \<leftarrow> [0..<n]. v mod k = 0]"
  by (simp add: strided_def)

lemma strided_special [simp]:
  "strided PInf n = (if 0 < n then [0] else [])"
  "strided NaN n = (if 0 < n then [0] else [])"
  by (simp_all add: strided_def origin_only)

lemma loop_x_fin:
  assumes "0 < k"
  shows "x0 mod k = 0 \<Longrightarrow>
    loop_x Color img st (Fin (real k)) y (Fin (real x0)) acc =
      Some (foldl (\<lambda>a x. visit Color img st y (Fin (real x)) a) acc
              [x \<leftarrow> [x0..<width img]. x mod k = 0])"
proof (induction "width img - x0" arbitrary: x0 acc rule: less_induct)
  case less
  show ?case
  proof (cases "x0 < width img")
    case True
    have d: "width img - (x0 + k) < width img - x0" using True assms by simp
    have m: "(x0 + k) mod k = 0" using less.prems by simp
    have IH: "loop_x Color img st (Fin (real k)) y (Fin (real (x0 + k))) acc' =
      Some (foldl (\<lambda>a x. visit Color img st y (Fin (real x)) a) acc'
              [x \<leftarrow> [x0 + k..<width img]. x mod k = 0])" for acc'
      by (rule less.hyps [OF d m])
    show ?thesis
      apply (subst loop_x.simps)
      using True IH by (simp add: grid_step [OF assms less.prems True])
  next
    case False
    then show ?thesis by (subst loop_x.simps) simp
  qed
qed

lemma loop_x_special:
  assumes "step = PInf \<or> step = NaN"
  shows "loop_x Color img st step y (Fin 0) acc =
      Some (foldl (\<lambda>a x. visit Color img st y (Fin (real x)) a) acc (strided step (width img)))"
  using assms
  by (subst loop_x.simps, subst loop_x.simps) auto

lemma loop_x_strided:
  assumes "(\<exists>k>0. step = Fin (real k)) \<or> step = PInf \<or> step = NaN"
  shows "loop_x Color img st step y (Fin 0) acc =
      Some (foldl (\<lambda>a x. visit Color img st y (Fin (real x)) a) acc (strided step (width img)))"
proof -
  consider k where "0 < k" "step = Fin (real k)" | "step = PInf \<or> step = NaN"
    using assms by blast
  then show ?thesis
  proof cases
    case 1
    then show ?thesis using loop_x_fin [of k 0 Color img st y acc] by simp
  next
    case 2
    then show ?thesis by (rule loop_x_special)
  qed
qed

lemma loop_y_fin:
  assumes "0 < k"
  shows "y0 mod k = 0 \<Longrightarrow>
    loop_y Color img st (Fin (real k)) (Fin (real y0)) acc =
      Some (foldl (\<lambda>a y. foldl (\<lambda>a x. visit Color img st (Fin (real y)) (Fin (real x)) a) a
                            (strided (Fin (real k)) (width img)))
              acc [y \<leftarrow> [y0..<height img]. y mod k = 0])"
proof (induction "height img - y0" arbitrary: y0 acc rule: less_induct)
  case less
  show ?case
  proof (cases "y0 < height img")
    case True
    have d: "height img - (y0 + k) < height img - y0" using True assms by simp
    have m: "(y0 + k) mod k = 0" using less.prems by simp
    have IH: "loop_y Color img st (Fin (real k)) (Fin (real (y0 + k))) acc' =
      Some (foldl (\<lambda>a y. foldl (\<lambda>a x. visit Color img st (Fin (real y)) (Fin (real x)) a) a
                            (strided (Fin (real k)) (width img)))
              acc' [y \<leftarrow> [y0 + k..<height img]. y mod k = 0])" for acc'
      by (rule less.hyps [OF d m])
    have row: "loop_x Color img st (Fin (real k)) (Fin (real y0)) (Fin 0) acc =
      Some (foldl (\<lambda>a x. visit Color img st (Fin (real y0)) (Fin (real x)) a) acc
              (strided (Fin (real k)) (width img)))"
      using assms by (intro loop_x_strided) blast
    show ?thesis
      apply (subst loop_y.simps)
      using True IH by (simp add: row grid_step [OF assms less.prems True])
  next
    case False
    then show ?thesis by (subst loop_y.simps) simp
  qed
qed

lemma loop_y_exit:
  "loop_y Color img st step PInf acc = Some acc"
  "loop_y Color img st step NaN acc = Some acc"
  by (subst loop_y.simps, simp)+

lemma loop_y_special:
  assumes "step = PInf \<or> step = NaN"
  shows "loop_y Color img st step (Fin 0) acc =
      Some (foldl (\<lambda>a y. foldl (\<lambda>a x. visit Color img st (Fin (real y)) (Fin (real x)) a) a
                            (strided step (width img)))
              acc (strided step (height img)))"
proof -
  have row: "loop_x Color img st step (Fin 0) (Fin 0) acc =
      Some (foldl (\<lambda>a x. visit Color img st (Fin 0) (Fin (real x)) a) acc
              (strided step (width img)))"
    using assms by (intro loop_x_strided) blast
  show ?thesis
    using assms
    by (subst loop_y.simps) (auto simp: row loop_y_exit)
qed

lemma loop_y_strided:
  "loop_y Color img st (step_of st) (Fin 0) acc =
      Some (foldl (\<lambda>a y. foldl (\<lambda>a x. visit Color img st (Fin (real y)) (Fin (real x)) a) a
                            (strided (step_of st) (width img)))
              acc (strided (step_of st) (height img)))"
proof (cases st rule: step_of_cases)
  case (1 k)
  then show ?thesis using loop_y_fin [of k 0 Color img st acc] by simp
next
  case 2
  then show ?thesis by (intro loop_y_special) simp
next
  case 3
  then show ?thesis by (intro loop_y_special) simp
qed

text \<open>One pixel, at natural coordinates.\<close>

lemma visit_nat:
  "visit Color img st (Fin (real y)) (Fin (real x)) acc =
    (if retained img st (x, y)
     then (fst acc @ position img st (x, y), snd acc @ colour Color img st (x, y))
     else acc)"
  by (simp add: visit_def retained_def channel_def position_def colour_def luma_def Let_def
      add.commute mult.commute split: prod.splits)

lemma length_position [simp]: "length (position img st c) = 3"
  by (simp add: position_def)

lemma length_colour [simp]: "length (colour Color img st c) = 3"
  by (simp add: colour_def split: prod.splits)

lemma foldl_rows:
  "foldl (\<lambda>a y. foldl (\<lambda>a x. f y x a) a xs) acc ys =
   foldl (\<lambda>a c. f (snd c) (fst c) a) acc (concat (map (\<lambda>y. map (\<lambda>x. (x, y)) xs) ys))"
proof (induction ys arbitrary: acc)
  case Nil
  then show ?case by simp
next
  case (Cons y ys)
  have "foldl (\<lambda>a c. f (snd c) (fst c) a) acc (map (\<lambda>x. (x, y)) xs) = foldl (\<lambda>a x. f y x a) acc xs"
    by (simp add: foldl_map)
  then show ?case using Cons.IH by simp
qed

lemma foldl_visit:
  "foldl (\<lambda>a c. visit Color img st (Fin (real (snd c))) (Fin (real (fst c))) a) acc cs =
    (fst acc @ concat (map (position img st) (filter (retained img st) cs)),
     snd acc @ concat (map (colour Color img st) (filter (retained img st) cs)))"
proof (induction cs arbitrary: acc)
  case Nil
  then show ?case by simp
next
  case (Cons c cs)
  obtain x y where c: "c = (x, y)" by (cases c)
  show ?case using Cons.IH by (simp add: c visit_nat)
qed

lemma img_onload_cloud:
  "img_onload Color img st s =
     Some (s\<lparr>particlesData := Some (cloud_of Color img st (retained_pixels img st))\<rparr>)"
proof -
  have "loop_y Color img st (step_of st) (Fin 0) ([], []) =
      Some (pos (cloud_of Color img st (retained_pixels img st)),
            col (cloud_of Color img st (retained_pixels img st)))"
    by (simp add: loop_y_strided foldl_rows foldl_visit cloud_of_def retained_pixels_def scan_def)
  then show ?thesis
    by (simp add: img_onload_def step_of_def cloud_of_def)
qed

subsection \<open>The scan order\<close>

lemma strided_sorted: "sorted_wrt (<) (strided step n)"
  by (cases step) (simp_all add: strided_def sorted_wrt_filter)

lemma strided_Fin_member:
  "v \<in> set (strided (Fin k) n) \<longleftrightarrow> v < n \<and> v mod nat \<lfloor>k\<rfloor> = 0"
  by (auto simp: strided_def)

lemma rows_sorted:
  assumes "sorted_wrt (<) xs"
  shows "sorted_wrt (<) ys \<Longrightarrow>
    sorted_wrt row_major (concat (map (\<lambda>y. map (\<lambda>x. (x, y)) xs) ys))"
proof (induction ys)
  case Nil
  then show ?case by simp
next
  case (Cons y ys)
  have row: "sorted_wrt row_major (map (\<lambda>x. (x, y)) xs)"
    using assms by (simp add: sorted_wrt_map row_major_def)
  have rest: "sorted_wrt row_major (concat (map (\<lambda>y. map (\<lambda>x. (x, y)) xs) ys))"
    using Cons by simp
  have "row_major c c'"
    if "c \<in> set (map (\<lambda>x. (x, y)) xs)" "c' \<in> set (concat (map (\<lambda>y. map (\<lambda>x. (x, y)) xs) ys))"
    for c c'
    using that Cons.prems by (auto simp: row_major_def)
  then show ?case
    using row rest by (simp add: sorted_wrt_append)
qed

lemma scan_sorted: "sorted_wrt row_major (scan img st)"
  by (simp add: scan_def rows_sorted strided_sorted)

lemma row_major_distinct: "sorted_wrt row_major cs \<Longrightarrow> distinct cs"
  by (induction cs) (auto simp: row_major_def)

lemma retained_pixels_sorted: "sorted_wrt row_major (retained_pixels img st)"
  by (simp add: retained_pixels_def sorted_wrt_filter scan_sorted)

lemma scan_member:
  "c \<in> set (scan img st) \<longleftrightarrow>
     fst c \<in> set (strided (step_of st) (width img)) \<and> snd c \<in> set (strided (step_of st) (height img))"
  by (cases c) (auto simp: scan_def)

lemma length_points:
  assumes "\<And>c. length (f c) = 3"
  shows "length (concat (map f cs)) = 3 * length cs"
  by (induction cs) (simp_all add: assms)

lemma jsnum_NaN_compare [simp]:
  "\<not> (v :: jsnum) \<le> NaN" "\<not> NaN \<le> (v :: jsnum)" "\<not> (v :: jsnum) < NaN" "\<not> NaN < (v :: jsnum)"
  by (cases v; simp)+

subsection \<open>Pixels inside the raster\<close>

lemma data_at_nat:
  "data_at d (Fin (real n)) = (if n < length d then Fin (real (unat (d ! n))) else NaN)"
  by (simp add: data_at_def)

text \<open>A retained pixel has a defined alpha, so all four of its bytes are inside the array.\<close>

lemma retained_channel:
  assumes "retained img st c" and "k \<le> 3"
  shows "channel img c k = Fin (real (byte img c k))"
proof -
  have "channel img c 3 \<noteq> NaN"
    using assms(1) by (auto simp: retained_def)
  then have "(snd c * width img + fst c) * 4 + 3 < length (data img)"
    unfolding channel_def data_at_nat by (simp split: if_splits)
  then have "(snd c * width img + fst c) * 4 + k < length (data img)"
    using assms(2) by simp
  then show ?thesis
    unfolding channel_def data_at_nat byte_def by simp
qed

lemma retained_position:
  assumes "retained img st c" and "particleSize st = Fin ps" and "zExtrusion st = Fin ze"
  shows "position img st c = map Fin (real_position img ps ze c)"
  using assms retained_channel [OF assms(1), of 0] retained_channel [OF assms(1), of 1]
    retained_channel [OF assms(1), of 2]
  by (simp add: position_def real_position_def luma_def real_luma_def)

subsection \<open>The examples, evaluated\<close>

lemmas run_simps =
  img_onload_def loop_y.simps loop_x.simps visit_def data_at_def applyColorMode_def Let_def
  raster_4x2_def white_pixel_def initial_state_def scenario_def empty_store_def example_Color_def

lemmas scan_simps =
  retained_pixels_def scan_def strided_def step_of_def retained_def channel_def
  data_at_def raster_4x2_def initial_state_def upt_rec

lemma raster_4x2_run:
  "img_onload example_Color raster_4x2 initial_state empty_store =
     Some \<lparr>particlesData = Some
       \<lparr>pos = [Fin (- (3 / 50)), Fin (3 / 100), Fin (8 / 3), Fin (3 / 100), Fin (3 / 100), Fin (16 / 5)],
        col = [Fin 1, Fin 0, Fin 0, Fin (1 / 5), Fin (2 / 5), Fin (3 / 5)]\<rparr>\<rparr>"
  by (simp add: run_simps)

lemma raster_4x2_retained:
  "retained_pixels raster_4x2 initial_state = [(0, 0), (3, 0)]"
  by (simp add: scan_simps)

lemma raster_4x2_dense:
  "scan raster_4x2 (initial_state\<lparr>samplingStep := Fin 1\<rparr>) =
     [(0, 0), (1, 0), (2, 0), (3, 0), (0, 1), (1, 1), (2, 1), (3, 1)]"
  "retained_pixels raster_4x2 (initial_state\<lparr>samplingStep := Fin 1\<rparr>) =
     [(0, 0), (2, 0), (3, 0), (1, 1), (2, 1)]"
  by (simp_all add: scan_simps)

subsection \<open>Decimal digits\<close>

lemma lt10_cases:
  assumes "d < (10::nat)"
  obtains "d = 0" | "d = 1" | "d = 2" | "d = 3" | "d = 4" | "d = 5" | "d = 6" | "d = 7"
    | "d = 8" | "d = 9"
  using assms by force

lemma digit_val_digit: "d < 10 \<Longrightarrow> digit_val (''0123456789'' ! d) = Some d"
  by (erule lt10_cases) (simp_all add: digit_val_def)

lemma digit_in_set: "d < 10 \<Longrightarrow> ''0123456789'' ! d \<in> set ''0123456789''"
  by (erule lt10_cases) simp_all

lemma digits_chars: "set (digits n) \<subseteq> set ''0123456789''"
proof (induction n rule: digits.induct)
  case (1 n)
  show ?case
  proof (cases "n < 10")
    case True
    then show ?thesis using digit_in_set [of n] by (subst digits.simps) simp
  next
    case False
    then show ?thesis
      using 1 digit_in_set [of "n mod 10"] by (subst digits.simps) simp
  qed
qed

lemma digits_not_Nil [simp]: "digits n \<noteq> []"
  by (subst digits.simps) simp

lemma read_digits_snoc:
  "read_digits acc (cs @ [c]) =
     (case read_digits acc cs of
        None \<Rightarrow> None
      | Some a \<Rightarrow> (case digit_val c of None \<Rightarrow> None | Some d \<Rightarrow> Some (10 * a + d)))"
  by (induction cs arbitrary: acc) (auto split: option.splits)

lemma read_digits_digits: "read_digits 0 (digits n) = Some n"
proof (induction n rule: digits.induct)
  case (1 n)
  show ?case
  proof (cases "n < 10")
    case True
    then show ?thesis by (subst digits.simps) (simp add: digit_val_digit)
  next
    case False
    then show ?thesis
      using 1 by (subst digits.simps) (simp add: read_digits_snoc digit_val_digit)
  qed
qed

lemma parse_nat_digits: "parse_nat (digits n) = Some n"
  by (simp add: parse_nat_def read_digits_digits)

subsection \<open>Three decimals\<close>

lemma digits_lt10: "n < 10 \<Longrightarrow> digits n = [''0123456789'' ! n]"
  by (subst digits.simps) simp

lemma digits_ge10: "10 \<le> n \<Longrightarrow> digits n = digits (n div 10) @ [''0123456789'' ! (n mod 10)]"
  by (subst digits.simps) simp

lemma length_pad3: "length (pad3 m) = 3"
  by (simp add: pad3_def)

lemma digits_ge1000:
  assumes "1000 \<le> n"
  shows "digits n = digits (n div 1000) @ pad3 (n mod 1000)"
proof -
  have a: "10 \<le> n" "10 \<le> n div 10" "10 \<le> n div 100"
    using assms by simp_all
  have d: "n div 10 div 10 = n div 100" "n div 100 div 10 = n div 1000"
    by (simp_all add: div_mult2_eq [symmetric])
  have "n mod 1000 div 10 = n div 10 mod 100"
    using mod_mult2_eq [of n 10 100] by simp
  then have m2: "n mod 1000 div 10 mod 10 = n div 10 mod 10"
    by (simp add: mod_mod_cancel)
  have m1: "n mod 1000 div 100 = n div 100 mod 10"
    using mod_mult2_eq [of n 100 10] by simp
  have m3: "n mod 1000 mod 10 = n mod 10"
    by (simp add: mod_mod_cancel)
  note m = m1 m2 m3
  have "digits n = digits (n div 1000) @
      [''0123456789'' ! (n div 100 mod 10), ''0123456789'' ! (n div 10 mod 10),
       ''0123456789'' ! (n mod 10)]"
    using digits_ge10 [OF a(1)] digits_ge10 [OF a(2)] digits_ge10 [OF a(3)] by (simp add: d)
  then show ?thesis by (simp add: pad3_def m)
qed

lemma digits_lt1000:
  assumes "n < 1000"
  shows "(if length (digits n) \<le> 3 then replicate (3 + 1 - length (digits n)) CHR ''0'' @ digits n
          else digits n) = CHR ''0'' # pad3 n"
proof -
  have r: "replicate 3 c = [c, c, c]" "replicate 2 c = [c, c]" for c :: char
    by (simp_all add: numeral_eq_Suc)
  consider "n < 10" | "10 \<le> n" "n < 100" | "100 \<le> n"
    by linarith
  then show ?thesis
  proof cases
    case 1
    then show ?thesis by (simp add: digits_lt10 pad3_def r)
  next
    case 2
    then have "n div 10 < 10" by simp
    then show ?thesis using 2 by (simp add: digits_ge10 digits_lt10 pad3_def r)
  next
    case 3
    then have "10 \<le> n" "10 \<le> n div 10" "n div 10 div 10 < 10" "n div 10 div 10 = n div 100"
      using assms by (simp_all add: div_mult2_eq [symmetric])
    then show ?thesis
      by (simp add: digits_ge10 digits_lt10 pad3_def)
  qed
qed

lemma toFixed3_fixed3:
  assumes "\<bar>v\<bar> < 10 ^ 21"
  shows "toFixed3 toStr (Fin v) = fixed3 v"
proof (cases "nat \<lfloor>\<bar>v\<bar> * 1000 + 1 / 2\<rfloor> < 1000")
  case True
  then have "nat \<lfloor>\<bar>v\<bar> * 1000 + 1 / 2\<rfloor> div 1000 = 0" by simp
  then show ?thesis
    using assms True
    by (simp add: toFixed3_def fixed3_def Let_def digits_lt1000 digits_lt10 length_pad3
        del: replicate.simps)
next
  case False
  then have ge: "1000 \<le> nat \<lfloor>\<bar>v\<bar> * 1000 + 1 / 2\<rfloor>" by simp
  note len = length_pad3
  show ?thesis
    using assms by (simp add: toFixed3_def fixed3_def Let_def digits_ge1000 [OF ge] len)
qed

subsection \<open>Reading three decimals back\<close>

lemma pad3_chars: "m < 1000 \<Longrightarrow> set (pad3 m) \<subseteq> set ''0123456789''"
proof -
  assume "m < 1000"
  then have "m div 100 < 10" by simp
  then show ?thesis
    using digit_in_set [of "m div 100"] digit_in_set [of "m div 10 mod 10"]
      digit_in_set [of "m mod 10"]
    by (simp add: pad3_def)
qed

lemma hundreds_tens_units:
  "100 * (m div 100) + 10 * (m div 10 mod 10) + m mod 10 = (m::nat)"
proof -
  have e1: "100 * (m div 100) + m mod 100 = m" by simp
  have e2: "10 * (m mod 100 div 10) + m mod 100 mod 10 = m mod 100" by simp
  have e3: "m mod 100 mod 10 = m mod 10" by (simp add: mod_mod_cancel)
  have e4: "m div 10 mod 10 = m mod 100 div 10"
    using mod_mult2_eq [of m 10 10] by simp
  have "100 * (m div 100) + 10 * (m div 10 mod 10) + m mod 10 =
      100 * (m div 100) + (10 * (m mod 100 div 10) + m mod 100 mod 10)"
    by (simp only: e4 e3 add.assoc)
  also have "\<dots> = 100 * (m div 100) + m mod 100" by (simp only: e2)
  also have "\<dots> = m" by (rule e1)
  finally show ?thesis .
qed

lemma parse_nat_pad3:
  assumes "m < 1000"
  shows "parse_nat (pad3 m) = Some m"
proof -
  have "m div 100 < 10" using assms by simp
  then show ?thesis
    using hundreds_tens_units [of m]
    by (simp add: parse_nat_def pad3_def digit_val_digit)
qed

lemma digit_chars_wider: "set ''0123456789'' \<subseteq> set ''-.0123456789''"
  by simp

lemma fixed3_chars: "set (fixed3 v) \<subseteq> set ''-.0123456789''"
proof -
  define n where "n = nat \<lfloor>\<bar>v\<bar> * 1000 + 1 / 2\<rfloor>"
  have 1: "set (digits (n div 1000)) \<subseteq> set ''-.0123456789''"
    using digits_chars [of "n div 1000"] digit_chars_wider by (rule subset_trans)
  have "n mod 1000 < 1000" by simp
  then have "set (pad3 (n mod 1000)) \<subseteq> set ''0123456789''" by (rule pad3_chars)
  then have 2: "set (pad3 (n mod 1000)) \<subseteq> set ''-.0123456789''"
    using digit_chars_wider by (rule subset_trans)
  have 3: "set (if v < 0 then ''-'' else []) \<subseteq> set ''-.0123456789''"
    by (cases "v < 0") simp_all
  have 4: "set ''.'' \<subseteq> set ''-.0123456789''" by simp
  have "fixed3 v = (if v < 0 then ''-'' else []) @ digits (n div 1000) @ ''.'' @ pad3 (n mod 1000)"
    by (simp only: fixed3_def Let_def n_def)
  then show ?thesis
    using 1 2 3 4 by (simp only: set_append Un_subset_iff)
qed

lemma hd_digits: "hd (digits n) \<noteq> CHR ''-''"
proof -
  have "hd (digits n) \<in> set (digits n)" by simp
  then have "hd (digits n) \<in> set ''0123456789''" using digits_chars by blast
  then show ?thesis by auto
qed

lemma takeWhile_digits: "takeWhile (\<lambda>c. c \<noteq> CHR ''.'') (digits n @ CHR ''.'' # rest) = digits n"
proof -
  have "\<And>c. c \<in> set (digits n) \<Longrightarrow> c \<noteq> CHR ''.''"
    using digits_chars [of n] by auto
  then show ?thesis by (simp add: takeWhile_append2)
qed

lemma parse_decimal_text:
  assumes "m < 1000"
  shows "parse_decimal (digits q @ CHR ''.'' # pad3 m) = Some (real q + real m / 1000)"
    and "parse_decimal (CHR ''-'' # digits q @ CHR ''.'' # pad3 m) = Some (- (real q + real m / 1000))"
  using hd_digits [of q]
  by (simp_all add: parse_decimal_def Let_def takeWhile_digits parse_nat_digits
      parse_nat_pad3 [OF assms] length_pad3 hd_append)

lemma parse_decimal_fixed3:
  "parse_decimal (fixed3 v) =
     Some ((if v < 0 then - 1 else 1) * (real (nat \<lfloor>\<bar>v\<bar> * 1000 + 1 / 2\<rfloor>) / 1000))"
proof -
  define n where "n = nat \<lfloor>\<bar>v\<bar> * 1000 + 1 / 2\<rfloor>"
  have "real n = real (1000 * (n div 1000) + n mod 1000)" by simp
  then have n: "real (n div 1000) + real (n mod 1000) / 1000 = real n / 1000"
    by (simp only: of_nat_add of_nat_mult) (simp add: field_simps)
  have r: "n mod 1000 < 1000" by simp
  have "parse_decimal ((if v < 0 then ''-'' else []) @ digits (n div 1000) @ ''.'' @ pad3 (n mod 1000)) =
     Some ((if v < 0 then - 1 else 1) * (real n / 1000))"
    using parse_decimal_text [OF r, of "n div 1000"] by (simp add: n)
  then show ?thesis
    by (simp only: fixed3_def Let_def n_def)
qed

lemma nearest_thousandth:
  "\<bar>(if v < 0 then - 1 else 1) * (real (nat \<lfloor>\<bar>v\<bar> * 1000 + 1 / 2\<rfloor>) / 1000) - v\<bar> \<le> 1 / 2000"
proof -
  define x where "x = \<bar>v\<bar> * 1000 + 1 / 2"
  define n where "n = real (nat \<lfloor>x\<rfloor>)"
  have "0 \<le> x" by (simp add: x_def)
  then have "0 \<le> \<lfloor>x\<rfloor>" by simp
  then have "n = of_int \<lfloor>x\<rfloor>" by (simp add: n_def)
  then have "n \<le> x" "x < n + 1" by linarith+
  then have b: "n / 1000 - \<bar>v\<bar> \<le> 1 / 2000" "\<bar>v\<bar> - n / 1000 \<le> 1 / 2000"
    unfolding x_def by linarith+
  have "\<bar>(if v < 0 then - 1 else 1) * (n / 1000) - v\<bar> \<le> 1 / 2000"
  proof (cases "v < 0")
    case True
    then have "(if v < 0 then - 1 else 1) * (n / 1000) = - (n / 1000)" by simp
    then show ?thesis using b True by linarith
  next
    case False
    then have "(if v < 0 then - 1 else 1) * (n / 1000) = n / 1000" by simp
    then show ?thesis using b False by linarith
  qed
  then show ?thesis
    by (simp only: n_def x_def)
qed

subsection \<open>Cutting a text at a separator\<close>

lemma split_on_not_Nil [simp]: "split_on sep s \<noteq> []"
  by (induction s) (auto split: list.splits)

lemma split_on_single: "sep \<notin> set a \<Longrightarrow> split_on sep a = [a]"
  by (induction a) (auto split: list.splits)

lemma split_on_append: "sep \<notin> set a \<Longrightarrow> split_on sep (a @ sep # rest) = a # split_on sep rest"
  by (induction a) (auto split: list.splits)

lemma split_on_lines:
  assumes "\<forall>l \<in> set ls. sep \<notin> set l"
  shows "split_on sep (concat (map (\<lambda>l. l @ [sep]) ls)) = ls @ [[]]"
  using assms by (induction ls) (simp_all add: split_on_append)

subsection \<open>The text of a vertex\<close>

lemma Math_max_Fin: "Math_max (Fin a) (Fin b) = Fin (max a b)"
  by (simp add: max_def)

lemma Math_min_Fin: "Math_min (Fin a) (Fin b) = Fin (min a b)"
  by (simp add: min_def)

lemma byte_text:
  assumes "0 \<le> w" and "w \<le> 255"
  shows "Number_toString toStr (Fin (of_int w)) = digits (nat w)"
proof -
  have "\<bar>real_of_int w\<bar> < 10 ^ 21" using assms by simp
  then show ?thesis using assms by (simp add: Number_toString_def)
qed

lemma times64_Fin: "times64 round64 (Fin c) (Fin 255) = round64 (c * 255)"
  by (simp add: times64_def)

text \<open>The text of a colour byte: a rounding never gives NaN.\<close>

lemma colour_text:
  assumes "round64 (c * 255) \<noteq> NaN"
  shows "Number_toString toStr (Math_min (Fin 255) (Math_max (Fin 0)
           (Math_floor (times64 round64 (Fin c) (Fin 255))))) =
         digits (clamp_byte (round64 (c * 255)))"
proof (cases "round64 (c * 255)")
  case (Fin v)
  define z where "z = \<lfloor>v\<rfloor>"
  have "Math_floor (Fin v) = Fin (of_int z)"
    by (simp add: z_def)
  moreover have "Math_min (Fin 255) (Math_max (Fin 0) (Fin (of_int z))) =
      Fin (of_int (min 255 (max 0 z)))"
    by (simp only: Math_max_Fin Math_min_Fin) simp
  ultimately have "Math_min (Fin 255) (Math_max (Fin 0) (Math_floor (Fin v))) =
      Fin (of_int (min 255 (max 0 z)))"
    by (simp only:)
  then show ?thesis
    using byte_text [of "min 255 (max 0 z)" toStr]
    by (simp add: times64_Fin Fin clamp_byte_def z_def)
next
  case PInf
  then show ?thesis
    using byte_text [of 255 toStr] by (simp add: times64_Fin clamp_byte_def)
next
  case NInf
  then show ?thesis
    using byte_text [of 0 toStr] by (simp add: times64_Fin clamp_byte_def)
next
  case NaN
  then show ?thesis using assms by simp
qed

lemma vertex_line_text:
  assumes "j < N" and "length ps = 3 * N" and "length cs = 3 * N"
    and "\<forall>v \<in> set ps. \<bar>v\<bar> < 10 ^ 21" and "\<forall>c \<in> set cs. round64 (c * 255) \<noteq> NaN"
  shows "vertex_line round64 toStr \<lparr>pos = map Fin ps, col = map Fin cs\<rparr> (3 * j) =
     Inr (vertex_text round64 ps cs j @ [CHR 0x0A])"
proof -
  define p where "p = \<lparr>pos = map Fin ps, col = map Fin cs\<rparr>"
  have i: "3 * j + k < 3 * N" if "k < 3" for k
    using assms(1) that by simp
  have e: "elem (pos p) (3 * j + k) = Some (Fin (ps ! (3 * j + k)))"
    "elem (col p) (3 * j + k) = Some (Fin (cs ! (3 * j + k)))" if "k < 3" for k
    using i [OF that] assms(2,3) by (simp_all add: elem_def p_def)
  have b: "\<bar>ps ! (3 * j + k)\<bar> < 10 ^ 21" if "k < 3" for k
    using i [OF that] assms(2,4) by simp
  have f: "toFixed toStr (elem (pos p) (3 * j + k)) = Inr (fixed3 (ps ! (3 * j + k)))" if "k < 3" for k
    by (simp add: e [OF that] toFixed_def toFixed3_fixed3 [OF b [OF that]])
  have n: "round64 (cs ! (3 * j + k) * 255) \<noteq> NaN" if "k < 3" for k
    using i [OF that] assms(3,5) by simp
  have c: "Number_toString toStr (Math_min (Fin 255) (Math_max (Fin 0)
        (Math_floor (times64 round64 (ToNumber (elem (col p) (3 * j + k))) (Fin 255))))) =
      digits (clamp_byte (round64 (cs ! (3 * j + k) * 255)))" if "k < 3" for k
    by (simp only: e [OF that] ToNumber_def option.case
        colour_text [of round64 "cs ! (3 * j + k)" toStr, OF n [OF that]])
  have "vertex_line round64 toStr p (3 * j) = Inr (vertex_text round64 ps cs j @ [CHR 0x0A])"
    unfolding vertex_line_def Let_def vertex_text_def
    using f [of 0] f [of 1] f [of 2] c [of 0] c [of 1] c [of 2]
    by (simp del: Math_min.simps Math_max.simps Math_floor.simps)
  then show ?thesis by (simp only: p_def)
qed

subsection \<open>The text of the file\<close>

lemma export_loop_text:
  assumes "length ps = 3 * N" and "length cs = 3 * N" and "\<forall>v \<in> set ps. \<bar>v\<bar> < 10 ^ 21"
    and "\<forall>c \<in> set cs. round64 (c * 255) \<noteq> NaN"
  shows "j \<le> N \<Longrightarrow>
    export_loop round64 toStr \<lparr>pos = map Fin ps, col = map Fin cs\<rparr> (3 * j) acc =
      Inr (acc @ concat (map (\<lambda>i. vertex_text round64 ps cs i @ [CHR 0x0A]) [j..<N]))"
proof (induction "N - j" arbitrary: j acc)
  case 0
  then have "j = N" by simp
  then show ?case
    using assms(1) by (subst export_loop.simps) simp
next
  case (Suc d)
  then have j: "j < N" and d: "d = N - Suc j" and le: "Suc j \<le> N" by simp_all
  have next_index: "3 * j + 3 = 3 * Suc j" by simp
  have "[j..<N] = j # [Suc j..<N]" using j by (simp add: upt_conv_Cons)
  then show ?case
    using j assms(1) Suc.hyps(1) [OF d le]
    by (subst export_loop.simps)
      (simp add: vertex_line_text [OF j assms] next_index del: export_loop.simps)
qed

lemma ply_header_lines:
  "ply_header count =
     concat (map (\<lambda>l. l @ [CHR 0x0A])
       [''ply'', ''format ascii 1.0'', ''element vertex '' @ count, ''property float x'',
        ''property float y'', ''property float z'', ''property uchar red'',
        ''property uchar green'', ''property uchar blue'', ''end_header''])"
  by (simp add: ply_header_def)

lemma count_text:
  assumes "N < 10 ^ 21"
  shows "Number_toString toStr (Fin (real (3 * N)) / Fin 3) = digits N"
proof -
  have "real N < 10 ^ 21"
    using assms by (metis of_nat_less_iff of_nat_numeral of_nat_power)
  then show ?thesis by (simp add: Number_toString_def)
qed

lemma exportPLY_text:
  assumes "0 < N" and "N < 10 ^ 21" and "length ps = 3 * N" and "length cs = 3 * N"
    and "\<forall>v \<in> set ps. \<bar>v\<bar> < 10 ^ 21" and "\<forall>c \<in> set cs. round64 (c * 255) \<noteq> NaN"
  shows "exportPLY round64 toStr \<lparr>particlesData = Some \<lparr>pos = map Fin ps, col = map Fin cs\<rparr>\<rparr> =
     Inr (Some (ply_header (digits N) @
       concat (map (\<lambda>i. vertex_text round64 ps cs i @ [CHR 0x0A]) [0..<N])))"
  using assms(1,3) export_loop_text [OF assms(3,4,5,6), of 0 toStr "ply_header (digits N)"]
    count_text [OF assms(2), of toStr]
  by (simp add: exportPLY_def Let_def del: export_loop.simps)

subsection \<open>Reading the file back\<close>

lemma rounded3_read: "parse_decimal (fixed3 v) = Some (rounded3 v)"
  by (simp only: parse_decimal_fixed3 rounded3_def)

lemma rounded3_near: "\<bar>rounded3 v - v\<bar> \<le> 1 / 2000"
  by (simp only: rounded3_def nearest_thousandth)

lemma no_space_in_digits: "CHR '' '' \<notin> set (digits n)" "CHR 0x0A \<notin> set (digits n)"
  using digits_chars [of n] by auto

lemma no_space_in_fixed3: "CHR '' '' \<notin> set (fixed3 v)" "CHR 0x0A \<notin> set (fixed3 v)"
  using fixed3_chars [of v] by auto

lemma split_six:
  assumes "sep \<notin> set a" "sep \<notin> set b" "sep \<notin> set c" "sep \<notin> set d" "sep \<notin> set e"
    "sep \<notin> set f"
  shows "split_on sep (a @ [sep] @ b @ [sep] @ c @ [sep] @ d @ [sep] @ e @ [sep] @ f) =
     [a, b, c, d, e, f]"
  using assms by (simp add: split_on_append split_on_single)

lemma parse_vertex_text:
  "parse_vertex (vertex_text round64 ps cs j) =
     Some (rounded3 (ps ! (3 * j)), rounded3 (ps ! (3 * j + 1)), rounded3 (ps ! (3 * j + 2)),
           clamp_byte (round64 (cs ! (3 * j) * 255)), clamp_byte (round64 (cs ! (3 * j + 1) * 255)),
           clamp_byte (round64 (cs ! (3 * j + 2) * 255)))"
proof -
  have "split_on CHR '' '' (vertex_text round64 ps cs j) =
      [fixed3 (ps ! (3 * j)), fixed3 (ps ! (3 * j + 1)), fixed3 (ps ! (3 * j + 2)),
       digits (clamp_byte (round64 (cs ! (3 * j) * 255))),
       digits (clamp_byte (round64 (cs ! (3 * j + 1) * 255))),
       digits (clamp_byte (round64 (cs ! (3 * j + 2) * 255)))]"
    unfolding vertex_text_def
    by (rule split_six) (rule no_space_in_fixed3 no_space_in_digits)+
  then show ?thesis
    by (simp add: parse_vertex_def rounded3_read parse_nat_digits del: One_nat_def)
qed

lemma vertex_text_line: "CHR 0x0A \<notin> set (vertex_text round64 ps cs j)"
  using no_space_in_fixed3(2) no_space_in_digits(2)
  by (simp add: vertex_text_def)

lemma lines_of_export:
  "lines_of (ply_header (digits N) @ concat (map (\<lambda>i. vertex_text round64 ps cs i @ [CHR 0x0A]) [0..<N])) =
     [''ply'', ''format ascii 1.0'', ''element vertex '' @ digits N, ''property float x'',
      ''property float y'', ''property float z'', ''property uchar red'',
      ''property uchar green'', ''property uchar blue'', ''end_header'']
     @ map (vertex_text round64 ps cs) [0..<N]"
proof -
  let ?H = "[''ply'', ''format ascii 1.0'', ''element vertex '' @ digits N, ''property float x'',
      ''property float y'', ''property float z'', ''property uchar red'',
      ''property uchar green'', ''property uchar blue'', ''end_header'']"
  let ?V = "map (vertex_text round64 ps cs) [0..<N]"
  have "ply_header (digits N) @ concat (map (\<lambda>i. vertex_text round64 ps cs i @ [CHR 0x0A]) [0..<N]) =
      concat (map (\<lambda>l. l @ [CHR 0x0A]) (?H @ ?V))"
    by (simp only: ply_header_lines map_append concat_append map_map comp_def)
  moreover have "\<forall>l \<in> set (?H @ ?V). CHR 0x0A \<notin> set l"
    using no_space_in_digits(2) [of N] by (auto simp: vertex_text_line)
  ultimately show ?thesis
    by (simp only: lines_of_def split_on_lines butlast_snoc)
qed

lemma header_lines_export:
  "header_lines (ply_header (digits N) @
      concat (map (\<lambda>i. vertex_text round64 ps cs i @ [CHR 0x0A]) [0..<N])) =
     [''ply'', ''format ascii 1.0'', ''element vertex '' @ digits N, ''property float x'',
      ''property float y'', ''property float z'', ''property uchar red'',
      ''property uchar green'', ''property uchar blue'']"
  by (simp add: header_lines_def lines_of_export)

lemma vertex_lines_export:
  "vertex_lines (ply_header (digits N) @
      concat (map (\<lambda>i. vertex_text round64 ps cs i @ [CHR 0x0A]) [0..<N])) =
     map (vertex_text round64 ps cs) [0..<N]"
  by (simp add: vertex_lines_def lines_of_export)

subsection \<open>The exporter's examples, evaluated\<close>

lemma replicate_zeros: "replicate 3 c = [c, c, c]" "replicate 2 c = [c, c]"
  by (simp_all add: numeral_eq_Suc)

lemmas export_simps =
  exportPLY_def vertex_line_def elem_def toFixed_def toFixed3_def times64_def
  Number_toString_def ToNumber_def digits.simps ply_header_def Let_def example_round64_def
  replicate_zeros

lemmas read_simps =
  vertex_lines_def header_lines_def lines_of_def parse_vertex_def parse_decimal_def parse_nat_def
  digit_val_def Let_def

lemma transparent_run:
  "img_onload example_Color transparent_4x4 initial_state empty_store =
     Some \<lparr>particlesData = Some \<lparr>pos = [], col = []\<rparr>\<rparr>"
  by (simp add: img_onload_def loop_y.simps loop_x.simps visit_def data_at_def Let_def
      transparent_4x4_def initial_state_def empty_store_def)

text \<open>
  A cloud of two points whose numbers are binary64 values. The red channel of the first
  point is the binary64 value nearest to 0.6: its exact product with 255 is below 153,
  the machine's product is 153, and 153 is the byte written.
\<close>

lemma export_two:
  "exportPLY example_round64 example_toStr \<lparr>particlesData = Some
      \<lparr>pos = map Fin [1 / 32, - (1 / 128), 11 / 4, 1 / 2, - (3 / 2), 13 / 4],
       col = map Fin [5404319552844595 / 9007199254740992, 3 / 4, 1 / 4, 1, 0, 1 / 2]\<rparr>\<rparr> =
     Inr (Some (ply_header ''2'' @ ''0.031 -0.008 2.750 153 191 63'' @ [CHR 0x0A] @
                ''0.500 -1.500 3.250 255 0 127'' @ [CHR 0x0A]))"
  by (simp add: export_simps)

lemma read_two:
  "vertex_lines (ply_header ''2'' @ ''0.031 -0.008 2.750 153 191 63'' @ [CHR 0x0A] @
                ''0.500 -1.500 3.250 255 0 127'' @ [CHR 0x0A]) =
     [''0.031 -0.008 2.750 153 191 63'', ''0.500 -1.500 3.250 255 0 127'']"
  "parse_vertex ''0.031 -0.008 2.750 153 191 63'' =
     Some (31 / 1000, - (8 / 1000), 11 / 4, 153, 191, 63)"
  "parse_vertex ''0.500 -1.500 3.250 255 0 127'' = Some (1 / 2, - (3 / 2), 13 / 4, 255, 0, 127)"
  by (simp_all add: read_simps ply_header_def)

section \<open>The claims\<close>

text \<open>
  Throughout, \<open>img_onload Color img st s = Some t\<close> says that the sampler, run on the raster
  \<open>img\<close> with the configuration \<open>st\<close>, returns and leaves the state \<open>t\<close>; by
  \<open>img_onload_cloud\<close> it always does, and the point cloud it stores is the one of the
  retained pixels in scan order.
\<close>

text \<open>
  C1, as stated in the specification: exporting a point cloud with no points produces the
  header alone, with \<^verbatim>\<open>element vertex 0\<close>. This fails: for the empty cloud the exporter
  does not produce that text.
\<close>

theorem export_empty_counterexample:
  "exportPLY example_round64 example_toStr \<lparr>particlesData = Some \<lparr>pos = [], col = []\<rparr>\<rparr> \<noteq>
     Inr (Some (ply_header ''0''))"
  by (simp add: exportPLY_def)

text \<open>
  C1, amended: exporting a point cloud with no points is not an error, and it produces no
  file: the exporter returns at its guard, without building any text, exactly when no
  cloud has been computed or the cloud has no points. A header is only written for a
  cloud with at least one point.
\<close>

theorem export_empty:
  "exportPLY round64 toStr s = Inr None \<longleftrightarrow>
     (case particlesData s of None \<Rightarrow> True | Some p \<Rightarrow> pos p = [])"
  by (simp add: exportPLY_def Let_def split: option.splits sum.splits)

theorem export_empty_witness:
  "exportPLY example_round64 example_toStr empty_store = Inr None \<and>
   exportPLY example_round64 example_toStr \<lparr>particlesData = Some \<lparr>pos = [], col = []\<rparr>\<rparr> = Inr None \<and>
   exportPLY example_round64 example_toStr \<lparr>particlesData = Some
      \<lparr>pos = map Fin [- (3 / 50), 3 / 100, 8 / 3, 3 / 100, 3 / 100, 16 / 5],
       col = map Fin [1, 0, 0, 1 / 5, 2 / 5, 3 / 5]\<rparr>\<rparr> \<noteq> Inr None"
  using export_empty [of example_round64 example_toStr empty_store]
    export_empty [of example_round64 example_toStr
      "\<lparr>particlesData = Some \<lparr>pos = [], col = []\<rparr>\<rparr>"]
    export_empty [of example_round64 example_toStr "\<lparr>particlesData = Some
      \<lparr>pos = map Fin [- (3 / 50), 3 / 100, 8 / 3, 3 / 100, 3 / 100, 16 / 5],
       col = map Fin [1, 0, 0, 1 / 5, 2 / 5, 3 / 5]\<rparr>\<rparr>"]
  by (simp add: empty_store_def)

text \<open>
  C2, as stated in the specification: the single opaque white pixel with stride 1, threshold
  0, the original colours, brightness 1 and a white tint gives one point at \<open>(0, 0, 0)\<close>.
  This fails: with the application's initial particle size 1.5 and extrusion 400 the one
  point is at \<open>(-0.015, 0.015, 8)\<close>.
\<close>

theorem single_pixel_counterexample:
  "img_onload example_Color white_pixel (scenario (Fin (3 / 2)) (Fin 400)) empty_store =
     Some \<lparr>particlesData = Some
       \<lparr>pos = [Fin (- (3 / 200)), Fin (3 / 200), Fin 8], col = [Fin 1, Fin 1, Fin 1]\<rparr>\<rparr> \<and>
   img_onload example_Color white_pixel (scenario (Fin (3 / 2)) (Fin 400)) empty_store \<noteq>
     Some \<lparr>particlesData = Some
       \<lparr>pos = [Fin 0, Fin 0, Fin 0], col = [Fin 1, Fin 1, Fin 1]\<rparr>\<rparr>"
  by (simp add: run_simps)

text \<open>
  C2, amended: in that scenario, with a finite particle size \<open>ps\<close> and extrusion \<open>ze\<close>, the
  sampler emits exactly one point, at \<open>(-0.01 * ps, 0.01 * ps, 0.02 * ze)\<close>, with the colour
  \<open>(1, 1, 1)\<close>: the pixel's corner is half a pixel from the centre of the raster, and white
  has luma 1.
\<close>

theorem single_pixel:
  "img_onload Color white_pixel (scenario (Fin ps) (Fin ze)) s =
     Some (s\<lparr>particlesData := Some
       \<lparr>pos = [Fin (- (ps / 100)), Fin (ps / 100), Fin (ze / 50)],
        col = [Fin 1, Fin 1, Fin 1]\<rparr>\<rparr>)"
  by (simp add: run_simps)

theorem single_pixel_witness:
  "img_onload example_Color white_pixel (scenario (Fin 1) (Fin 0)) empty_store =
     Some \<lparr>particlesData = Some
       \<lparr>pos = [Fin (- (1 / 100)), Fin (1 / 100), Fin 0], col = [Fin 1, Fin 1, Fin 1]\<rparr>\<rparr>"
  using single_pixel [of example_Color 1 0 empty_store]
  by (simp add: empty_store_def)

text \<open>
  C3: with a finite particle size \<open>ps\<close> and extrusion \<open>ze\<close>, the position array is the
  concatenation, over the retained pixels \<open>(x, y)\<close> in scan order, of
  \<open>(x - W/2) * ps * 0.02\<close>, \<open>-(y - H/2) * ps * 0.02\<close> and \<open>luma * ze * 0.02\<close>, where
  \<open>luma = (r + g + b) / (3 * 255)\<close> and \<open>W\<close>, \<open>H\<close> are the raster's dimensions.
\<close>

theorem point_positions:
  assumes "particleSize st = Fin ps" and "zExtrusion st = Fin ze"
  shows "\<exists>cloud. img_onload Color img st s = Some (s\<lparr>particlesData := Some cloud\<rparr>) \<and>
     pos cloud = concat (map (\<lambda>c. map Fin (real_position img ps ze c)) (retained_pixels img st))"
proof -
  have eq: "concat (map (position img st) (retained_pixels img st)) =
      concat (map (\<lambda>c. map Fin (real_position img ps ze c)) (retained_pixels img st))"
    by (rule arg_cong [where f = concat], rule map_cong [OF refl])
      (simp add: retained_pixels_def retained_position assms)
  show ?thesis
    by (intro exI [of _ "cloud_of Color img st (retained_pixels img st)"])
      (simp add: img_onload_cloud cloud_of_def eq)
qed

theorem point_positions_witness:
  "particleSize initial_state = Fin (3 / 2) \<and> zExtrusion initial_state = Fin 400 \<and>
   retained_pixels raster_4x2 initial_state = [(0, 0), (3, 0)] \<and>
   real_position raster_4x2 (3 / 2) 400 (3, 0) = [3 / 100, 3 / 100, 16 / 5] \<and>
   (\<exists>cloud. img_onload example_Color raster_4x2 initial_state empty_store =
       Some \<lparr>particlesData = Some cloud\<rparr> \<and>
     pos cloud = [Fin (- (3 / 50)), Fin (3 / 100), Fin (8 / 3), Fin (3 / 100), Fin (3 / 100), Fin (16 / 5)])"
proof -
  have h1: "particleSize initial_state = Fin (3 / 2)" and h2: "zExtrusion initial_state = Fin 400"
    by (simp_all add: initial_state_def)
  have r: "real_position raster_4x2 (3 / 2) 400 (3, 0) = [3 / 100, 3 / 100, 16 / 5]"
    "real_position raster_4x2 (3 / 2) 400 (0, 0) = [- (3 / 50), 3 / 100, 8 / 3]"
    by (simp_all add: real_position_def real_luma_def byte_def raster_4x2_def)
  show ?thesis
    using point_positions [OF h1 h2, of example_Color raster_4x2 empty_store] h1 h2 r
    by (simp add: raster_4x2_retained empty_store_def)
qed

text \<open>
  C4: the points of the output are those of the retained pixels, one point each, and a
  pixel is retained if and only if the scan visits it and its alpha is at least the
  threshold. So every point comes from a pixel whose alpha reaches the threshold, and no
  visited pixel below the threshold has a point.
\<close>

theorem alpha_filter:
  "img_onload Color img st s =
     Some (s\<lparr>particlesData := Some (cloud_of Color img st (retained_pixels img st))\<rparr>) \<and>
   distinct (retained_pixels img st) \<and>
   (\<forall>c. c \<in> set (retained_pixels img st) \<longleftrightarrow>
        c \<in> set (scan img st) \<and> channel img c 3 \<ge> transparencyThreshold st)"
proof -
  have "distinct (retained_pixels img st)"
    by (rule row_major_distinct) (rule retained_pixels_sorted)
  moreover have "c \<in> set (retained_pixels img st) \<longleftrightarrow>
        c \<in> set (scan img st) \<and> channel img c 3 \<ge> transparencyThreshold st" for c
    by (auto simp: retained_pixels_def retained_def)
  ultimately show ?thesis
    by (simp add: img_onload_cloud)
qed

theorem alpha_filter_witness:
  "scan raster_4x2 (initial_state\<lparr>samplingStep := Fin 1\<rparr>) =
     [(0, 0), (1, 0), (2, 0), (3, 0), (0, 1), (1, 1), (2, 1), (3, 1)] \<and>
   retained_pixels raster_4x2 (initial_state\<lparr>samplingStep := Fin 1\<rparr>) =
     [(0, 0), (2, 0), (3, 0), (1, 1), (2, 1)] \<and>
   transparencyThreshold (initial_state\<lparr>samplingStep := Fin 1\<rparr>) = Fin 20 \<and>
   channel raster_4x2 (1, 0) 3 = Fin 10 \<and> channel raster_4x2 (3, 1) 3 = Fin 19 \<and>
   channel raster_4x2 (3, 0) 3 = Fin 200 \<and>
   img_onload example_Color raster_4x2 (initial_state\<lparr>samplingStep := Fin 1\<rparr>) empty_store =
     Some \<lparr>particlesData = Some (cloud_of example_Color raster_4x2
       (initial_state\<lparr>samplingStep := Fin 1\<rparr>) [(0, 0), (2, 0), (3, 0), (1, 1), (2, 1)])\<rparr>"
proof -
  have "channel raster_4x2 (1, 0) 3 = Fin 10" "channel raster_4x2 (3, 1) 3 = Fin 19"
    "channel raster_4x2 (3, 0) 3 = Fin 200"
    "transparencyThreshold (initial_state\<lparr>samplingStep := Fin 1\<rparr>) = Fin 20"
    by (simp_all add: channel_def data_at_def raster_4x2_def initial_state_def)
  then show ?thesis
    using alpha_filter [of example_Color raster_4x2 "initial_state\<lparr>samplingStep := Fin 1\<rparr>" empty_store]
    by (simp add: raster_4x2_dense empty_store_def)
qed

text \<open>
  C5: for a finite \<open>samplingStep\<close> \<open>v\<close> the effective stride is \<open>max 1 (floor v)\<close>; every
  emitted point comes from a pixel \<open>(x, y)\<close> with \<open>x mod stride = 0\<close> and
  \<open>y mod stride = 0\<close>, and the points are in row-major scan order: \<open>y\<close> outer, \<open>x\<close> inner,
  each increasing.
\<close>

theorem stride_and_order:
  assumes "samplingStep st = Fin v"
  shows "img_onload Color img st s =
     Some (s\<lparr>particlesData := Some (cloud_of Color img st (retained_pixels img st))\<rparr>) \<and>
   step_of st = Fin (real (nat (max 1 \<lfloor>v\<rfloor>))) \<and>
   (\<forall>c \<in> set (retained_pixels img st).
      fst c mod nat (max 1 \<lfloor>v\<rfloor>) = 0 \<and> snd c mod nat (max 1 \<lfloor>v\<rfloor>) = 0) \<and>
   sorted_wrt row_major (retained_pixels img st)"
proof -
  have step: "step_of st = Fin (real (nat (max 1 \<lfloor>v\<rfloor>)))"
  proof (cases "1 < \<lfloor>v\<rfloor>")
    case True
    then show ?thesis using assms by (simp add: step_of_def max_def)
  next
    case False
    then have "max 1 \<lfloor>v\<rfloor> = 1" by simp
    then show ?thesis using assms False by (simp add: step_of_def)
  qed
  have "fst c mod nat (max 1 \<lfloor>v\<rfloor>) = 0 \<and> snd c mod nat (max 1 \<lfloor>v\<rfloor>) = 0"
    if "c \<in> set (retained_pixels img st)" for c
    using that by (simp add: retained_pixels_def scan_member step strided_Fin_member)
  then show ?thesis
    using step by (simp add: img_onload_cloud retained_pixels_sorted)
qed

theorem stride_and_order_witness:
  "samplingStep initial_state = Fin 3 \<and> step_of initial_state = Fin 3 \<and>
   retained_pixels raster_4x2 initial_state = [(0, 0), (3, 0)] \<and>
   row_major (0, 0) (3, 0) \<and>
   img_onload example_Color raster_4x2 initial_state empty_store =
     Some \<lparr>particlesData = Some (cloud_of example_Color raster_4x2 initial_state [(0, 0), (3, 0)])\<rparr>"
proof -
  have h: "samplingStep initial_state = Fin 3"
    by (simp add: initial_state_def)
  show ?thesis
    using stride_and_order [OF h, of example_Color raster_4x2 empty_store] h
    by (simp add: raster_4x2_retained empty_store_def)
qed

text \<open>
  C6, as stated in the specification: for a point cloud with \<open>N\<close> points the exported text
  has \<^verbatim>\<open>element vertex N\<close> in its header and \<open>N\<close> vertex lines. This fails for \<open>N = 0\<close>:
  sampling the fully transparent raster leaves a cloud with no points, and exporting it
  produces no text at all.
\<close>

theorem export_round_trip_counterexample:
  "img_onload example_Color transparent_4x4 initial_state empty_store =
     Some \<lparr>particlesData = Some \<lparr>pos = [], col = []\<rparr>\<rparr> \<and>
   exportPLY example_round64 example_toStr \<lparr>particlesData = Some \<lparr>pos = [], col = []\<rparr>\<rparr> =
     Inr None"
  by (simp add: transparent_run exportPLY_def)

text \<open>
  C6, amended: for a point cloud with \<open>N \<ge> 1\<close> points, all coordinates and colour channels
  finite and the coordinates of magnitude below \<open>10\<^sup>2\<^sup>1\<close>, the exported text has the line
  \<^verbatim>\<open>element vertex N\<close> in its header and exactly \<open>N\<close> vertex lines after \<^verbatim>\<open>end_header\<close>;
  reading line \<open>j\<close> back gives each coordinate of point \<open>j\<close> within half a thousandth, and
  each colour channel exactly as the byte \<open>clamp (floor (channel * 255)) 0 255\<close>, where the
  product is the machine's: the exact product rounded to binary64 by \<open>round64\<close>. The
  hypotheses on the length and on the rounding hold in every run: an array holds fewer
  than \<open>2\<^sup>3\<^sup>2\<close> elements, and rounding a real number never gives NaN.
\<close>

theorem export_round_trip:
  assumes "0 < N" and "3 * N < 2 ^ 32" and "length ps = 3 * N" and "length cs = 3 * N"
    and "\<forall>v \<in> set ps. \<bar>v\<bar> < 10 ^ 21" and "\<forall>c \<in> set cs. round64 (c * 255) \<noteq> NaN"
  shows "\<exists>content.
     exportPLY round64 toStr \<lparr>particlesData = Some \<lparr>pos = map Fin ps, col = map Fin cs\<rparr>\<rparr> =
       Inr (Some content) \<and>
     ''element vertex '' @ digits N \<in> set (header_lines content) \<and>
     length (vertex_lines content) = N \<and>
     (\<forall>j < N. \<exists>x y z.
        parse_vertex (vertex_lines content ! j) =
          Some (x, y, z, clamp_byte (round64 (cs ! (3 * j) * 255)),
                clamp_byte (round64 (cs ! (3 * j + 1) * 255)),
                clamp_byte (round64 (cs ! (3 * j + 2) * 255))) \<and>
        \<bar>x - ps ! (3 * j)\<bar> \<le> 1 / 2000 \<and> \<bar>y - ps ! (3 * j + 1)\<bar> \<le> 1 / 2000 \<and>
        \<bar>z - ps ! (3 * j + 2)\<bar> \<le> 1 / 2000)"
proof -
  let ?content = "ply_header (digits N) @
      concat (map (\<lambda>i. vertex_text round64 ps cs i @ [CHR 0x0A]) [0..<N])"
  have "N < 2 ^ 32" using assms(2) by simp
  also have "(2::nat) ^ 32 < 10 ^ 21" by simp
  finally have count: "N < 10 ^ 21" .
  have "exportPLY round64 toStr \<lparr>particlesData = Some \<lparr>pos = map Fin ps, col = map Fin cs\<rparr>\<rparr> =
       Inr (Some ?content)"
    by (rule exportPLY_text [OF assms(1) count assms(3,4,5,6)])
  moreover have "''element vertex '' @ digits N \<in> set (header_lines ?content)"
    by (simp only: header_lines_export) simp
  moreover have "length (vertex_lines ?content) = N"
    by (simp add: vertex_lines_export)
  moreover have "\<exists>x y z.
        parse_vertex (vertex_lines ?content ! j) =
          Some (x, y, z, clamp_byte (round64 (cs ! (3 * j) * 255)),
                clamp_byte (round64 (cs ! (3 * j + 1) * 255)),
                clamp_byte (round64 (cs ! (3 * j + 2) * 255))) \<and>
        \<bar>x - ps ! (3 * j)\<bar> \<le> 1 / 2000 \<and> \<bar>y - ps ! (3 * j + 1)\<bar> \<le> 1 / 2000 \<and>
        \<bar>z - ps ! (3 * j + 2)\<bar> \<le> 1 / 2000" if "j < N" for j
  proof -
    have "vertex_lines ?content ! j = vertex_text round64 ps cs j"
      using that by (simp add: vertex_lines_export)
    then have "parse_vertex (vertex_lines ?content ! j) =
        Some (rounded3 (ps ! (3 * j)), rounded3 (ps ! (3 * j + 1)), rounded3 (ps ! (3 * j + 2)),
              clamp_byte (round64 (cs ! (3 * j) * 255)),
              clamp_byte (round64 (cs ! (3 * j + 1) * 255)),
              clamp_byte (round64 (cs ! (3 * j + 2) * 255)))"
      by (simp only: parse_vertex_text)
    then show ?thesis
      using rounded3_near by blast
  qed
  ultimately show ?thesis by blast
qed

theorem export_round_trip_witness:
  "exportPLY example_round64 example_toStr \<lparr>particlesData = Some
      \<lparr>pos = map Fin [1 / 32, - (1 / 128), 11 / 4, 1 / 2, - (3 / 2), 13 / 4],
       col = map Fin [5404319552844595 / 9007199254740992, 3 / 4, 1 / 4, 1, 0, 1 / 2]\<rparr>\<rparr> =
     Inr (Some (ply_header ''2'' @ ''0.031 -0.008 2.750 153 191 63'' @ [CHR 0x0A] @
                ''0.500 -1.500 3.250 255 0 127'' @ [CHR 0x0A])) \<and>
   length (vertex_lines (ply_header ''2'' @ ''0.031 -0.008 2.750 153 191 63'' @ [CHR 0x0A] @
                ''0.500 -1.500 3.250 255 0 127'' @ [CHR 0x0A])) = 2 \<and>
   parse_vertex ''0.031 -0.008 2.750 153 191 63'' =
     Some (31 / 1000, - (8 / 1000), 11 / 4,
           clamp_byte (example_round64 (5404319552844595 / 9007199254740992 * 255)),
           clamp_byte (example_round64 (3 / 4 * 255)), clamp_byte (example_round64 (1 / 4 * 255))) \<and>
   clamp_byte (example_round64 (5404319552844595 / 9007199254740992 * 255)) = 153 \<and>
   \<lfloor>5404319552844595 / 9007199254740992 * 255 :: real\<rfloor> = 152 \<and>
   \<bar>31 / 1000 - 1 / 32 :: real\<bar> \<le> 1 / 2000"
proof -
  have h: "0 < (2::nat)" "3 * (2::nat) < 2 ^ 32"
    "length [1 / 32, - (1 / 128), 11 / 4, 1 / 2, - (3 / 2), 13 / 4 :: real] = 3 * 2"
    "length [5404319552844595 / 9007199254740992, 3 / 4, 1 / 4, 1, 0, 1 / 2 :: real] = 3 * 2"
    "\<forall>v \<in> set [1 / 32, - (1 / 128), 11 / 4, 1 / 2, - (3 / 2), 13 / 4 :: real]. \<bar>v\<bar> < 10 ^ 21"
    "\<forall>c \<in> set [5404319552844595 / 9007199254740992, 3 / 4, 1 / 4, 1, 0, 1 / 2 :: real].
       example_round64 (c * 255) \<noteq> NaN"
    by (simp_all add: example_round64_def)
  have c: "clamp_byte (example_round64 (5404319552844595 / 9007199254740992 * 255)) = 153"
    "clamp_byte (example_round64 (3 / 4 * 255)) = 191"
    "clamp_byte (example_round64 (1 / 4 * 255)) = 63"
    by (simp_all add: clamp_byte_def example_round64_def)
  have f: "\<lfloor>5404319552844595 / 9007199254740992 * 255 :: real\<rfloor> = 152"
    by simp
  obtain content where
    "exportPLY example_round64 example_toStr \<lparr>particlesData = Some
      \<lparr>pos = map Fin [1 / 32, - (1 / 128), 11 / 4, 1 / 2, - (3 / 2), 13 / 4],
       col = map Fin [5404319552844595 / 9007199254740992, 3 / 4, 1 / 4, 1, 0, 1 / 2]\<rparr>\<rparr> =
       Inr (Some content)"
    and n: "length (vertex_lines content) = 2"
    using export_round_trip [OF h, of example_toStr] by blast
  then have "content = ply_header ''2'' @ ''0.031 -0.008 2.750 153 191 63'' @ [CHR 0x0A] @
                ''0.500 -1.500 3.250 255 0 127'' @ [CHR 0x0A]"
    by (simp only: export_two sum.inject option.inject)
  then show ?thesis
    using n f by (simp only: export_two read_two c) simp
qed

text \<open>
  C7: under the MATRIX mode, for every pixel \<open>(r, g, b)\<close>, the colour before tint and
  brightness is red 0, green \<open>luminance * 1.5\<close> and blue 0, with the luminance
  \<open>0.299 R + 0.587 G + 0.114 B\<close> of the channels divided by 255; the result is that triple
  multiplied, channel by channel, by the tint (unless the tint is white) and then by the
  brightness.
\<close>

theorem matrix_mode:
  "applyColorMode Color (Fin r) (Fin g) (Fin b) MATRIX bright tint =
    (let luminance = r / 255 * 0.299 + g / 255 * 0.587 + b / 255 * 0.114;
         (tintR, tintG, tintB) = (if tint = ''#ffffff'' then (Fin 1, Fin 1, Fin 1) else Color tint)
     in (Fin 0 * tintR * bright, Fin (luminance * 1.5) * tintG * bright, Fin 0 * tintB * bright))"
  by (simp add: applyColorMode_def Let_def split: prod.splits)

theorem matrix_mode_witness:
  "applyColorMode example_Color (Fin 255) (Fin 255) (Fin 255) MATRIX (Fin 1) ''#ffffff'' =
     (Fin 0, Fin (3 / 2), Fin 0) \<and>
   applyColorMode example_Color (Fin 100) (Fin 200) (Fin 50) MATRIX (Fin 2) ''#ff0000'' =
     (Fin 0, Fin 0, Fin 0) \<and>
   applyColorMode example_Color (Fin 0) (Fin 255) (Fin 0) MATRIX PInf ''#ffffff'' =
     (NaN, PInf, NaN)"
  using matrix_mode [of example_Color 255 255 255 "Fin 1" "''#ffffff''"]
    matrix_mode [of example_Color 100 200 50 "Fin 2" "''#ff0000''"]
    matrix_mode [of example_Color 0 255 0 PInf "''#ffffff''"]
  by (simp add: example_Color_def)

text \<open>
  C8, as stated in the specification: a non-finite value in a numeric field other than the
  stride makes the core report a configuration error instead of producing NaN geometry.
  This fails: with the particle size NaN the sampler returns a point cloud, and the
  point's \<open>x\<close> and \<open>y\<close> are NaN.
\<close>

theorem no_validation_counterexample:
  "img_onload example_Color white_pixel (scenario NaN (Fin 400)) empty_store =
     Some \<lparr>particlesData = Some \<lparr>pos = [NaN, NaN, Fin 8], col = [Fin 1, Fin 1, Fin 1]\<rparr>\<rparr>"
  by (simp add: run_simps)

text \<open>
  C8, amended: the stride is clamped to at least 1 (for every \<open>samplingStep\<close> but NaN); no
  field is checked: for every configuration the sampler returns and stores the point cloud
  of the retained pixels, and a non-finite value goes through the formulas into the
  output: with the particle size NaN, the \<open>x\<close> and \<open>y\<close> of every point are NaN.
\<close>

theorem no_validation:
  "(samplingStep st \<noteq> NaN \<longrightarrow> Fin 1 \<le> step_of st) \<and>
   img_onload Color img st s =
     Some (s\<lparr>particlesData := Some (cloud_of Color img st (retained_pixels img st))\<rparr>) \<and>
   (particleSize st = NaN \<longrightarrow> (\<forall>c. take 2 (position img st c) = [NaN, NaN]))"
proof -
  have "Fin 1 \<le> step_of st" if "samplingStep st \<noteq> NaN"
    using that by (cases "samplingStep st") (simp_all add: step_of_def)
  moreover have "take 2 (position img st c) = [NaN, NaN]" if "particleSize st = NaN" for c
    using that by (simp add: position_def)
  ultimately show ?thesis
    by (simp add: img_onload_cloud)
qed

theorem no_validation_witness:
  "samplingStep (initial_state\<lparr>particleSize := NaN\<rparr>) \<noteq> NaN \<and>
   particleSize (initial_state\<lparr>particleSize := NaN\<rparr>) = NaN \<and>
   Fin 1 \<le> step_of (initial_state\<lparr>particleSize := NaN\<rparr>) \<and>
   img_onload example_Color raster_4x2 (initial_state\<lparr>particleSize := NaN\<rparr>) empty_store =
     Some \<lparr>particlesData = Some
       \<lparr>pos = [NaN, NaN, Fin (8 / 3), NaN, NaN, Fin (16 / 5)],
        col = [Fin 1, Fin 0, Fin 0, Fin (1 / 5), Fin (2 / 5), Fin (3 / 5)]\<rparr>\<rparr>"
proof -
  have h: "samplingStep (initial_state\<lparr>particleSize := NaN\<rparr>) \<noteq> NaN"
    "particleSize (initial_state\<lparr>particleSize := NaN\<rparr>) = NaN"
    by (simp_all add: initial_state_def)
  have run: "img_onload example_Color raster_4x2 (initial_state\<lparr>particleSize := NaN\<rparr>) empty_store =
     Some \<lparr>particlesData = Some
       \<lparr>pos = [NaN, NaN, Fin (8 / 3), NaN, NaN, Fin (16 / 5)],
        col = [Fin 1, Fin 0, Fin 0, Fin (1 / 5), Fin (2 / 5), Fin (3 / 5)]\<rparr>\<rparr>"
    by (simp add: run_simps)
  show ?thesis
    using no_validation [of "initial_state\<lparr>particleSize := NaN\<rparr>" example_Color raster_4x2 empty_store]
      h run
    by simp
qed

text \<open>
  C9: sampling is deterministic. The state the sampler leaves does not depend on the state
  before it, and sampling the same raster with the same configuration again leaves the
  same state: the same arrays, value by value, in the same order.
\<close>

theorem sampling_deterministic:
  "img_onload Color img st s = img_onload Color img st s' \<and>
   (\<exists>t. img_onload Color img st s = Some t \<and> img_onload Color img st t = Some t)"
  by (simp add: img_onload_cloud)

theorem sampling_deterministic_witness:
  "img_onload example_Color raster_4x2 initial_state
       \<lparr>particlesData = Some \<lparr>pos = [NaN, NaN, NaN], col = [Fin 0, Fin 0, Fin 0]\<rparr>\<rparr> =
     Some \<lparr>particlesData = Some
       \<lparr>pos = [Fin (- (3 / 50)), Fin (3 / 100), Fin (8 / 3), Fin (3 / 100), Fin (3 / 100), Fin (16 / 5)],
        col = [Fin 1, Fin 0, Fin 0, Fin (1 / 5), Fin (2 / 5), Fin (3 / 5)]\<rparr>\<rparr>"
  using sampling_deterministic [of example_Color raster_4x2 initial_state empty_store
      "\<lparr>particlesData = Some \<lparr>pos = [NaN, NaN, NaN], col = [Fin 0, Fin 0, Fin 0]\<rparr>\<rparr>"]
  by (simp add: raster_4x2_run)

text \<open>
  C10: the position array and the colour array of the sampler's output have the same
  length, three numbers for each of the \<open>N\<close> retained pixels: every point has exactly one
  colour.
\<close>

theorem arrays_same_length:
  "\<exists>cloud. img_onload Color img st s = Some (s\<lparr>particlesData := Some cloud\<rparr>) \<and>
     length (pos cloud) = 3 * length (retained_pixels img st) \<and>
     length (col cloud) = 3 * length (retained_pixels img st)"
  by (rule exI [of _ "cloud_of Color img st (retained_pixels img st)"])
    (simp add: img_onload_cloud cloud_of_def length_points)

theorem arrays_same_length_witness:
  "retained_pixels raster_4x2 (initial_state\<lparr>samplingStep := Fin 1\<rparr>) =
     [(0, 0), (2, 0), (3, 0), (1, 1), (2, 1)] \<and>
   (\<exists>cloud. img_onload example_Color raster_4x2 (initial_state\<lparr>samplingStep := Fin 1\<rparr>) empty_store =
       Some \<lparr>particlesData = Some cloud\<rparr> \<and>
     length (pos cloud) = 15 \<and> length (col cloud) = 15)"
  using arrays_same_length [of example_Color raster_4x2 "initial_state\<lparr>samplingStep := Fin 1\<rparr>" empty_store]
  by (simp add: raster_4x2_dense empty_store_def)

end
